theory Spec2Isabelle
  imports Complex_Main
begin

section \<open>JavaScript values\<close>

text \<open>
  The values that \<open>JSON.parse\<close> and property reads produce. A number is carried by its
  canonical rendering (what \<open>Number.prototype.toString\<close> gives: \<open>''0''\<close>, \<open>''42''\<close>,
  \<open>''1.5''\<close>); the two zeros share \<open>''0''\<close>. An object is the list of its own
  properties; a key is looked up from the front.
\<close>

datatype jsval =
    JUndefined
  | JNull
  | JBool bool
  | JNum string
  | JStr string
  | JArr "jsval list"
  | JObj "(string \<times> jsval) list"

datatype error =
    SyntaxError
  | TypeError
  | ReferenceError
  | SqsError
  | InvalidFormat
  | ProcessingError error

text \<open>Truthiness, as \<open>&&\<close>, \<open>||\<close>, \<open>!\<close> and \<open>if\<close> test it.\<close>

fun truthy :: "jsval \<Rightarrow> bool" where
  "truthy JUndefined = False"
| "truthy JNull = False"
| "truthy (JBool b) = b"
| "truthy (JNum s) = (s \<noteq> ''0'' \<and> s \<noteq> ''NaN'')"
| "truthy (JStr s) = (s \<noteq> [])"
| "truthy (JArr xs) = True"
| "truthy (JObj kvs) = True"

text \<open>
  \<open>v.k\<close> and \<open>v[k]\<close> for a receiver that is neither \<open>null\<close> nor \<open>undefined\<close> (every
  read in the processors stands behind \<open>messageBody &&\<close> or behind the validity test)
  and a key that no built-in prototype defines (the thirteen field names, \<open>body\<close>).
\<close>

fun get_prop :: "jsval \<Rightarrow> string \<Rightarrow> jsval" where
  "get_prop (JObj kvs) k = (case map_of kvs k of None \<Rightarrow> JUndefined | Some v \<Rightarrow> v)"
| "get_prop v k = JUndefined"

text \<open>\<open>Array.prototype.join\<close> with the separator \<open>,\<close> over already converted elements.\<close>

fun join :: "(error + string) list \<Rightarrow> error + string" where
  "join [] = Inr []"
| "join [r] = r"
| "join (r # rs) =
     (case r of
        Inl e \<Rightarrow> Inl e
      | Inr s \<Rightarrow> (case join rs of Inl e \<Rightarrow> Inl e | Inr t \<Rightarrow> Inr (s @ '','' @ t)))"

text \<open>
  The conversion a template literal applies to each substitution. An array joins its
  elements (\<open>null\<close> and \<open>undefined\<close> give the empty string). An object parsed from JSON
  renders as \<open>[object Object]\<close> unless it has an own property \<open>toString\<close>: that
  property is data, not callable, \<open>valueOf\<close> returns the object itself, and the
  conversion throws a \<open>TypeError\<close>.
\<close>

fun ToString :: "jsval \<Rightarrow> error + string" where
  "ToString JUndefined = Inr ''undefined''"
| "ToString JNull = Inr ''null''"
| "ToString (JBool b) = Inr (if b then ''true'' else ''false'')"
| "ToString (JNum s) = Inr s"
| "ToString (JStr s) = Inr s"
| "ToString (JArr xs) =
     join (map (\<lambda>x. if x = JUndefined \<or> x = JNull then Inr [] else ToString x) xs)"
| "ToString (JObj kvs) =
     (if map_of kvs ''toString'' = None then Inr ''[object Object]'' else Inl TypeError)"

section \<open>Configuration read from the process environment\<close>

record environ =
  AWS_REGION :: "string option"
  SQS_QUEUE_URL :: "string option"
  SQS_DLQ_URL :: "string option"
  NODE_ENV :: "string option"

text \<open>\<open>a || b\<close> for an environment variable \<open>a\<close> (a string or \<open>undefined\<close>).\<close>

definition or_else :: "string option \<Rightarrow> string \<Rightarrow> string" where
  "or_else a b = (case a of None \<Rightarrow> b | Some s \<Rightarrow> if s = [] then b else s)"

text \<open>\<open>a + s\<close> for an environment variable \<open>a\<close> and a string \<open>s\<close>.\<close>

definition plus_string :: "string option \<Rightarrow> string \<Rightarrow> string" where
  "plus_string a s = (case a of None \<Rightarrow> ''undefined'' @ s | Some t \<Rightarrow> t @ s)"

text \<open>\<open>!a\<close> for an environment variable.\<close>

definition unset :: "string option \<Rightarrow> bool" where
  "unset a = (case a of None \<Rightarrow> True | Some s \<Rightarrow> s = [])"

text \<open>\<open>src/PetClinicReportProcessor.js\<close>, lines 4 to 6.\<close>

definition region :: "environ \<Rightarrow> string" where
  "region env = or_else (AWS_REGION env) ''us-east-1''"

definition queueUrl :: "environ \<Rightarrow> string option" where
  "queueUrl env = SQS_QUEUE_URL env"

definition dlqUrl :: "environ \<Rightarrow> string" where
  "dlqUrl env = or_else (SQS_DLQ_URL env) (plus_string (SQS_QUEUE_URL env) ''-dlq'')"

text \<open>The processor of \<open>unnamed/part_002\<close>, line 5: the queue URL has a default.\<close>

definition queueUrl_part002 :: "environ \<Rightarrow> string" where
  "queueUrl_part002 env =
     or_else (SQS_QUEUE_URL env)
       ''https://sqs.us-east-1.amazonaws.com/123456789012/pet-clinic-reports''"

section \<open>Messages, the queue service and the observable world\<close>

text \<open>
  An SQS message as the processors read it. \<open>Body\<close> is kept as the outcome of
  \<open>JSON.parse\<close> on its text: \<open>None\<close> when the parse throws a \<open>SyntaxError\<close>.
  A message has no property \<open>body\<close>.
\<close>

record message =
  ReceiptHandle :: string
  Body :: "jsval option"

text \<open>
  The commands sent through \<open>sqsClient.send\<close>: \<open>ReceiveMessageCommand\<close> with
  \<open>QueueUrl\<close>, \<open>MaxNumberOfMessages\<close>, \<open>WaitTimeSeconds\<close> and \<open>VisibilityTimeout\<close>, and
  \<open>DeleteMessageCommand\<close> with \<open>QueueUrl\<close> and \<open>ReceiptHandle\<close>.
\<close>

datatype sqs_call =
    ReceiveMessage (QueueUrl: "string option") nat nat nat
  | DeleteMessage (QueueUrl: "string option") string

text \<open>The promise of \<open>send\<close>: rejected, or resolved with \<open>data.Messages\<close> (if any).\<close>

datatype reply = Rejected | Resolved "message list option"

datatype line = Log string | Err string

text \<open>The report that \<open>unnamed/part_002\<close> builds (lines 32 to 54).\<close>

record petInfo =
  name :: jsval
  type :: jsval

record personInfo =
  id :: jsval
  name :: string

record appointment =
  date :: jsval
  time :: jsval
  type :: jsval
  description :: jsval

record report =
  id :: jsval
  petInfo :: petInfo
  ownerInfo :: personInfo
  vetInfo :: personInfo
  appointment :: appointment
  processedAt :: string
  environment :: string

text \<open>
  What a run leaves behind: the commands sent to the queue service in order, the console
  lines (the fixed words of each call; in full where a substituted value decides whether
  the call throws), and the reports handed to \<open>processReportData\<close>.
\<close>

record world =
  calls :: "sqs_call list"
  console :: "line list"
  handed :: "report list"

text \<open>
  What the program does not decide, as functions of everything that happened so far: the
  service's answer to a command, the clock (\<open>new Date().toISOString()\<close>) and
  \<open>Math.random()\<close>.
\<close>

record outside =
  sqs :: "world \<Rightarrow> sqs_call \<Rightarrow> reply"
  now :: "world \<Rightarrow> string"
  random :: "world \<Rightarrow> real"

definition console_log :: "string \<Rightarrow> world \<Rightarrow> world" where
  "console_log s w = w\<lparr>console := console w @ [Log s]\<rparr>"

definition console_error :: "string \<Rightarrow> world \<Rightarrow> world" where
  "console_error s w = w\<lparr>console := console w @ [Err s]\<rparr>"

text \<open>\<open>sqsClient.send(command)\<close>: the command is recorded, the service answers.\<close>

definition send :: "outside \<Rightarrow> sqs_call \<Rightarrow> world \<Rightarrow> reply \<times> world" where
  "send out c w = (sqs out w c, w\<lparr>calls := calls w @ [c]\<rparr>)"

text \<open>
  How an asynchronous function ends: it returns, it throws (the promise rejects), or an
  exception escapes every handler and ends the process.
\<close>

datatype completion = Normal | Throw error | Crash error

text \<open>How one run of \<open>pollQueue\<close> ends.\<close>

datatype next_step = SetTimeout nat | Return | ProcessExit nat

section \<open>The processor of \<open>src/PetClinicReportProcessor.js\<close>\<close>

text \<open>
  The thirteen truthiness tests of lines 60 to 64, in order, behind \<open>messageBody &&\<close>.
\<close>

definition nullChecks :: "jsval \<Rightarrow> bool" where
  "nullChecks messageBody =
     (truthy messageBody \<and> truthy (get_prop messageBody ''petId'')
      \<and> truthy (get_prop messageBody ''petName'')
      \<and> truthy (get_prop messageBody ''petType'')
      \<and> truthy (get_prop messageBody ''ownerId'')
      \<and> truthy (get_prop messageBody ''ownerName'')
      \<and> truthy (get_prop messageBody ''ownerSurname'')
      \<and> truthy (get_prop messageBody ''vetId'')
      \<and> truthy (get_prop messageBody ''vetName'')
      \<and> truthy (get_prop messageBody ''vetSurname'')
      \<and> truthy (get_prop messageBody ''appointmentDate'')
      \<and> truthy (get_prop messageBody ''appointmentTime'')
      \<and> truthy (get_prop messageBody ''appointmentType'')
      \<and> truthy (get_prop messageBody ''appointmentDescription''))"

text \<open>
  \<open>deleteMessage(receiptHandle, targetQueue = queueUrl)\<close>, lines 89 to 101: the default
  stands in when the argument is \<open>undefined\<close>; a rejected send is logged and rethrown.
\<close>

definition deleteMessage ::
  "environ \<Rightarrow> outside \<Rightarrow> string \<Rightarrow> string option \<Rightarrow> world \<Rightarrow> completion \<times> world" where
  "deleteMessage env out receiptHandle targetQueue w =
     (let target = (case targetQueue of None \<Rightarrow> queueUrl env | Some q \<Rightarrow> Some q) in
      case send out (DeleteMessage target receiptHandle) w of
        (Rejected, w1) \<Rightarrow> (Throw SqsError, console_error ''Error deleting message:'' w1)
      | (Resolved data, w1) \<Rightarrow> (Normal, w1))"

text \<open>The \<open>catch\<close> of \<open>processMessage\<close>, lines 78 to 81: log, then throw a new error.\<close>

definition rethrow :: "error \<Rightarrow> world \<Rightarrow> completion \<times> world" where
  "rethrow e w = (Throw (ProcessingError e), console_error ''Error processing message:'' w)"

text \<open>
  \<open>processMessage(message, isRetry = false)\<close>, lines 52 to 82. The call
  \<open>PetClinicReport.from(message.body)\<close> is the parameter \<open>from\<close>; it receives
  \<open>undefined\<close>, since a message has no property \<open>body\<close>.
\<close>

definition processMessage ::
  "(jsval \<Rightarrow> error + 'r) \<Rightarrow> environ \<Rightarrow> outside \<Rightarrow> message \<Rightarrow> bool \<Rightarrow> world
     \<Rightarrow> completion \<times> world" where
  "processMessage from env out message isRetry w =
     (case Body message of
        None \<Rightarrow> rethrow SyntaxError w
      | Some messageBody \<Rightarrow>
          (let w1 = console_log ''Received message:'' w in
           if nullChecks messageBody then
             (case from JUndefined of
                Inl e \<Rightarrow> rethrow e w1
              | Inr report \<Rightarrow>
                  (let w2 = console_log ''Processed report:'' w1;
                       targetQueue = (if isRetry then Some (dlqUrl env) else queueUrl env) in
                   case deleteMessage env out (ReceiptHandle message) targetQueue w2 of
                     (Normal, w3) \<Rightarrow>
                       (Normal, console_log ''Message processed and deleted from queue'' w3)
                   | (Throw e, w3) \<Rightarrow> rethrow e w3
                   | (Crash e, w3) \<Rightarrow> (Crash e, w3)))
           else
             rethrow InvalidFormat
               (console_log ''Invalid message format. Skipping processing.'' w1)))"

text \<open>
  The binding the repository gives to \<open>PetClinicReport.from\<close>: the processor never
  imports \<open>PetClinicReport\<close>, and the class of \<open>src/PetClinicReport.js\<close> has
  \<open>fromJson\<close> but no static \<open>from\<close>. Evaluating the call throws.
\<close>

definition PetClinicReport_from :: "jsval \<Rightarrow> error + unit" where
  "PetClinicReport_from jsonData = Inl ReferenceError"

text \<open>The loop of \<open>processDeadLetterQueue\<close>, lines 28 to 40.\<close>

fun reprocess ::
  "(jsval \<Rightarrow> error + 'r) \<Rightarrow> environ \<Rightarrow> outside \<Rightarrow> message list \<Rightarrow> world \<Rightarrow> world" where
  "reprocess from env out [] w = w"
| "reprocess from env out (message # rest) w =
     (case processMessage from env out message True w of
        (Normal, w1) \<Rightarrow>
          (case deleteMessage env out (ReceiptHandle message) (Some (dlqUrl env)) w1 of
             (Normal, w2) \<Rightarrow>
               reprocess from env out rest
                 (console_log ''Successfully reprocessed message from DLQ'' w2)
           | (c, w2) \<Rightarrow>
               reprocess from env out rest
                 (console_error ''Failed to reprocess DLQ message:'' w2))
      | (c, w1) \<Rightarrow>
          reprocess from env out rest (console_error ''Failed to reprocess DLQ message:'' w1))"

text \<open>\<open>processDeadLetterQueue\<close>, lines 14 to 45.\<close>

definition processDeadLetterQueue ::
  "(jsval \<Rightarrow> error + 'r) \<Rightarrow> environ \<Rightarrow> outside \<Rightarrow> world \<Rightarrow> world" where
  "processDeadLetterQueue from env out w =
     (case send out (ReceiveMessage (Some (dlqUrl env)) 10 5 30) w of
        (Rejected, w1) \<Rightarrow> console_error ''Error processing DLQ:'' w1
      | (Resolved None, w1) \<Rightarrow> w1
      | (Resolved (Some messages), w1) \<Rightarrow>
          (if 0 < length messages then
             reprocess from env out messages (console_log ''Processing messages from DLQ'' w1)
           else w1))"

text \<open>
  \<open>data.Messages.map(message => processMessage(message))\<close>, line 126: every call runs
  up to its \<open>send\<close> before the next one starts, so the delete commands go out in batch
  order; each promise settles on its own. The console lines that a call writes after its
  \<open>send\<close> has settled are recorded here with the call, where the program writes them
  once the calls of the whole batch have been started; the commands sent and the way each
  promise settles are not affected.
\<close>

fun processPromises ::
  "(jsval \<Rightarrow> error + 'r) \<Rightarrow> environ \<Rightarrow> outside \<Rightarrow> message list \<Rightarrow> world
     \<Rightarrow> completion list \<times> world" where
  "processPromises from env out [] w = ([], w)"
| "processPromises from env out (message # rest) w =
     (case processMessage from env out message False w of
        (c, w1) \<Rightarrow>
          (case processPromises from env out rest w1 of (cs, w2) \<Rightarrow> (c # cs, w2)))"

text \<open>\<open>await Promise.all(processPromises)\<close>: throws when one of the promises rejects.\<close>

definition Promise_all :: "completion list \<Rightarrow> completion" where
  "Promise_all cs = (case filter (\<lambda>c. c \<noteq> Normal) cs of [] \<Rightarrow> Normal | c # rest \<Rightarrow> c)"

text \<open>One run of \<open>pollQueue\<close>, lines 106 to 142.\<close>

definition pollQueue ::
  "(jsval \<Rightarrow> error + 'r) \<Rightarrow> environ \<Rightarrow> outside \<Rightarrow> world \<Rightarrow> next_step \<times> world" where
  "pollQueue from env out w =
     (if unset (queueUrl env) then
        (Return, console_error ''SQS_QUEUE_URL environment variable is not set'' w)
      else
        (let w3 =
           (case send out (ReceiveMessage (queueUrl env) 10 20 30) w of
              (Rejected, w1) \<Rightarrow> console_error ''Error receiving messages:'' w1
            | (Resolved None, w1) \<Rightarrow> console_log ''No messages received'' w1
            | (Resolved (Some messages), w1) \<Rightarrow>
                (if 0 < length messages then
                   (case processPromises from env out messages
                           (console_log ''Received messages'' w1) of
                      (cs, w2) \<Rightarrow>
                        (if Promise_all cs = Normal then w2
                         else console_error ''Error receiving messages:'' w2))
                 else console_log ''No messages received'' w1));
             w4 = (if random out w3 < 1 / 10 then processDeadLetterQueue from env out w3
                   else w3)
         in (SetTimeout 100, w4)))"

text \<open>\<open>main\<close>, lines 147 to 153.\<close>

definition main ::
  "(jsval \<Rightarrow> error + 'r) \<Rightarrow> environ \<Rightarrow> outside \<Rightarrow> world \<Rightarrow> next_step \<times> world" where
  "main from env out w =
     pollQueue from env out
       (console_log ''DLQ configured at:'' (console_log ''Starting SQS consumer for queue:'' w))"

section \<open>The processor of \<open>unnamed/part_002\<close>\<close>

definition requiredFields :: "string list" where
  "requiredFields =
     [''petId'', ''petName'', ''petType'', ''ownerId'', ''ownerName'',
      ''ownerSurname'', ''vetId'', ''vetName'', ''vetSurname'',
      ''appointmentDate'', ''appointmentTime'', ''appointmentType'',
      ''appointmentDescription'']"

text \<open>Line 29: \<open>requiredFields.every(field => messageBody && messageBody[field])\<close>.\<close>

definition isValid :: "jsval \<Rightarrow> bool" where
  "isValid messageBody =
     list_all (\<lambda>field. truthy messageBody \<and> truthy (get_prop messageBody field))
       requiredFields"

text \<open>The template literal \<open>`${a} ${b}`\<close> of lines 40 and 44.\<close>

definition template :: "jsval \<Rightarrow> jsval \<Rightarrow> error + string" where
  "template a b =
     (case ToString a of
        Inl e \<Rightarrow> Inl e
      | Inr s \<Rightarrow> (case ToString b of Inl e \<Rightarrow> Inl e | Inr t \<Rightarrow> Inr (s @ '' '' @ t)))"

text \<open>
  The object literal of lines 32 to 54, evaluated top to bottom; \<open>clock\<close> is the value
  of \<open>new Date().toISOString()\<close>.
\<close>

definition report_of :: "environ \<Rightarrow> string \<Rightarrow> jsval \<Rightarrow> error + report" where
  "report_of env clock messageBody =
     (case template (get_prop messageBody ''ownerName'')
             (get_prop messageBody ''ownerSurname'') of
        Inl e \<Rightarrow> Inl e
      | Inr ownerFull \<Rightarrow>
          (case template (get_prop messageBody ''vetName'')
                  (get_prop messageBody ''vetSurname'') of
             Inl e \<Rightarrow> Inl e
           | Inr vetFull \<Rightarrow>
               Inr \<lparr> report.id = get_prop messageBody ''petId'',
                     petInfo = \<lparr> petInfo.name = get_prop messageBody ''petName'',
                                 type = get_prop messageBody ''petType'' \<rparr>,
                     ownerInfo = \<lparr> personInfo.id = get_prop messageBody ''ownerId'',
                                   name = ownerFull \<rparr>,
                     vetInfo = \<lparr> personInfo.id = get_prop messageBody ''vetId'',
                                 name = vetFull \<rparr>,
                     appointment =
                       \<lparr> date = get_prop messageBody ''appointmentDate'',
                         time = get_prop messageBody ''appointmentTime'',
                         type = get_prop messageBody ''appointmentType'',
                         description = get_prop messageBody ''appointmentDescription'' \<rparr>,
                     processedAt = clock,
                     environment = or_else (NODE_ENV env) ''production'' \<rparr>))"

text \<open>
  \<open>processReportData\<close>, lines 78 to 86. The template literal with \<open>report.id\<close> runs in
  a timer callback: when the conversion throws there, no handler is in reach.
\<close>

definition processReportData :: "report \<Rightarrow> world \<Rightarrow> completion \<times> world" where
  "processReportData r w =
     (let w1 = w\<lparr>handed := handed w @ [r]\<rparr> in
      case ToString (report.id r) of
        Inl e \<Rightarrow> (Crash e, w1)
      | Inr s \<Rightarrow>
          (Normal,
           console_log (''Report '' @ s @ '' processed in '' @ environment r @ '' environment'')
             w1))"

text \<open>\<open>deleteMessage(receiptHandle)\<close>, lines 92 to 104.\<close>

definition deleteMessage_part002 ::
  "environ \<Rightarrow> outside \<Rightarrow> string \<Rightarrow> world \<Rightarrow> completion \<times> world" where
  "deleteMessage_part002 env out receiptHandle w =
     (case send out (DeleteMessage (Some (queueUrl_part002 env)) receiptHandle) w of
        (Rejected, w1) \<Rightarrow> (Throw SqsError, console_error ''Error deleting message:'' w1)
      | (Resolved data, w1) \<Rightarrow> (Normal, w1))"

text \<open>\<open>processMessage(message)\<close>, lines 18 to 72.\<close>

definition processMessage_part002 ::
  "environ \<Rightarrow> outside \<Rightarrow> message \<Rightarrow> world \<Rightarrow> completion \<times> world" where
  "processMessage_part002 env out message w =
     (case Body message of
        None \<Rightarrow> rethrow SyntaxError w
      | Some messageBody \<Rightarrow>
          (let w1 = console_log ''Processing report message:'' w in
           if isValid messageBody then
             (case report_of env (now out w1) messageBody of
                Inl e \<Rightarrow> rethrow e w1
              | Inr r \<Rightarrow>
                  (case processReportData r
                          (console_log ''Successfully processed report:'' w1) of
                     (Normal, w2) \<Rightarrow>
                       (case deleteMessage_part002 env out (ReceiptHandle message) w2 of
                          (Normal, w3) \<Rightarrow>
                            (Normal,
                             console_log ''Message processed and removed from queue'' w3)
                        | (Throw e, w3) \<Rightarrow> rethrow e w3
                        | (Crash e, w3) \<Rightarrow> (Crash e, w3))
                   | (Throw e, w2) \<Rightarrow> rethrow e w2
                   | (Crash e, w2) \<Rightarrow> (Crash e, w2)))
           else
             rethrow InvalidFormat
               (console_error ''Invalid message format - missing required fields'' w1)))"

text \<open>
  The loop of \<open>pollQueue\<close>, lines 129 to 135: each message in turn, a thrown error
  logged. It tells whether the process is still alive.
\<close>

fun processEach ::
  "environ \<Rightarrow> outside \<Rightarrow> message list \<Rightarrow> world \<Rightarrow> completion \<times> world" where
  "processEach env out [] w = (Normal, w)"
| "processEach env out (message # rest) w =
     (case processMessage_part002 env out message w of
        (Normal, w1) \<Rightarrow> processEach env out rest w1
      | (Throw e, w1) \<Rightarrow>
          processEach env out rest (console_error ''Failed to process message:'' w1)
      | (Crash e, w1) \<Rightarrow> (Crash e, w1))"

text \<open>
  One run of \<open>pollQueue\<close>, lines 109 to 145. An uncaught exception ends the process
  with exit code 1.
\<close>

definition pollQueue_part002 :: "environ \<Rightarrow> outside \<Rightarrow> world \<Rightarrow> next_step \<times> world" where
  "pollQueue_part002 env out w =
     (if unset (Some (queueUrl_part002 env)) then
        (Return, console_error ''SQS_QUEUE_URL environment variable is not set'' w)
      else
        (case send out (ReceiveMessage (Some (queueUrl_part002 env)) 10 20 300) w of
           (Rejected, w1) \<Rightarrow>
             (SetTimeout 1000, console_error ''Error receiving messages from queue:'' w1)
         | (Resolved None, w1) \<Rightarrow>
             (SetTimeout 1000, console_log ''No messages available in queue'' w1)
         | (Resolved (Some messages), w1) \<Rightarrow>
             (if 0 < length messages then
                (case processEach env out messages
                        (console_log ''Received messages from pet-clinic-reports queue'' w1) of
                   (Crash e, w2) \<Rightarrow> (ProcessExit 1, w2)
                 | (c, w2) \<Rightarrow> (SetTimeout 1000, w2))
              else (SetTimeout 1000, console_log ''No messages available in queue'' w1))))"

definition main_part002 :: "environ \<Rightarrow> outside \<Rightarrow> world \<Rightarrow> next_step \<times> world" where
  "main_part002 env out w =
     pollQueue_part002 env out
       (console_log ''Running in environment''
          (console_log ''Starting enhanced SQS consumer for queue:'' w))"

section \<open>The processor of \<open>unnamed/part_001\<close>\<close>

text \<open>\<open>deleteMessage(receiptHandle)\<close>, lines 37 to 49.\<close>

definition deleteMessage_part001 ::
  "environ \<Rightarrow> outside \<Rightarrow> string \<Rightarrow> world \<Rightarrow> completion \<times> world" where
  "deleteMessage_part001 env out receiptHandle w =
     (case send out (DeleteMessage (queueUrl env) receiptHandle) w of
        (Rejected, w1) \<Rightarrow> (Throw SqsError, console_error ''Error deleting message:'' w1)
      | (Resolved data, w1) \<Rightarrow> (Normal, w1))"

text \<open>
  \<open>processMessage(message)\<close>, lines 14 to 31: the \<open>catch\<close> logs and does not rethrow.
\<close>

definition processMessage_part001 ::
  "(jsval \<Rightarrow> error + 'r) \<Rightarrow> environ \<Rightarrow> outside \<Rightarrow> message \<Rightarrow> world
     \<Rightarrow> completion \<times> world" where
  "processMessage_part001 from env out message w =
     (case from JUndefined of
        Inl e \<Rightarrow> (Normal, console_error ''Error processing message:'' w)
      | Inr r \<Rightarrow>
          (case Body message of
             None \<Rightarrow> (Normal, console_error ''Error processing message:'' w)
           | Some messageBody \<Rightarrow>
               (case deleteMessage_part001 env out (ReceiptHandle message)
                       (console_log ''Received message:'' w) of
                  (Normal, w1) \<Rightarrow>
                    (Normal, console_log ''Message processed and deleted from queue'' w1)
                | (c, w1) \<Rightarrow> (Normal, console_error ''Error processing message:'' w1))))"

text \<open>
  Line 74, \<open>data.Messages.map(message => processMessage(message))\<close>, with the console
  lines of a call recorded with the call, as for the processor above.
\<close>

fun processPromises_part001 ::
  "(jsval \<Rightarrow> error + 'r) \<Rightarrow> environ \<Rightarrow> outside \<Rightarrow> message list \<Rightarrow> world
     \<Rightarrow> completion list \<times> world" where
  "processPromises_part001 from env out [] w = ([], w)"
| "processPromises_part001 from env out (message # rest) w =
     (case processMessage_part001 from env out message w of
        (c, w1) \<Rightarrow>
          (case processPromises_part001 from env out rest w1 of (cs, w2) \<Rightarrow> (c # cs, w2)))"

text \<open>One run of \<open>pollQueue\<close>, lines 54 to 85; \<open>process.exit(1)\<close> ends it at once.\<close>

definition pollQueue_part001 ::
  "(jsval \<Rightarrow> error + 'r) \<Rightarrow> environ \<Rightarrow> outside \<Rightarrow> world \<Rightarrow> next_step \<times> world" where
  "pollQueue_part001 from env out w =
     (if unset (queueUrl env) then
        (ProcessExit 1, console_error ''SQS_QUEUE_URL environment variable is not set'' w)
      else
        (case send out (ReceiveMessage (queueUrl env) 10 20 30) w of
           (Rejected, w1) \<Rightarrow> (SetTimeout 100, console_error ''Error receiving messages:'' w1)
         | (Resolved None, w1) \<Rightarrow> (SetTimeout 100, console_log ''No messages received'' w1)
         | (Resolved (Some messages), w1) \<Rightarrow>
             (if 0 < length messages then
                (case processPromises_part001 from env out messages
                        (console_log ''Received messages'' w1) of
                   (cs, w2) \<Rightarrow>
                     (SetTimeout 100,
                      if Promise_all cs = Normal then w2
                      else console_error ''Error receiving messages:'' w2))
              else (SetTimeout 100, console_log ''No messages received'' w1))))"

definition main_part001 ::
  "(jsval \<Rightarrow> error + 'r) \<Rightarrow> environ \<Rightarrow> outside \<Rightarrow> world \<Rightarrow> next_step \<times> world" where
  "main_part001 from env out w =
     pollQueue_part001 from env out (console_log ''Starting SQS consumer for queue:'' w)"

section \<open>The poll loop\<close>

text \<open>
  \<open>setTimeout(pollQueue, ...)\<close> starts the next run; the loop has no exit of its own.
  \<open>poll_loop run n\<close> follows it for the first run and at most \<open>n\<close> more, and tells
  how the last of them ended.
\<close>

fun poll_loop :: "(world \<Rightarrow> next_step \<times> world) \<Rightarrow> nat \<Rightarrow> world \<Rightarrow> next_step \<times> world" where
  "poll_loop run 0 w = run w"
| "poll_loop run (Suc n) w =
     (case run w of
        (SetTimeout delay, w1) \<Rightarrow> poll_loop run n w1
      | (Return, w1) \<Rightarrow> (Return, w1)
      | (ProcessExit code, w1) \<Rightarrow> (ProcessExit code, w1))"

section \<open>The steps of one processing attempt\<close>

text \<open>
  The validate and map steps of \<open>processMessage\<close> in
  \<open>src/PetClinicReportProcessor.js\<close> both succeed: the body parses, passes the
  thirteen tests, and \<open>PetClinicReport.from\<close> returns.
\<close>

definition accepted :: "(jsval \<Rightarrow> error + 'r) \<Rightarrow> message \<Rightarrow> bool" where
  "accepted from message =
     (case Body message of
        None \<Rightarrow> False
      | Some messageBody \<Rightarrow>
          nullChecks messageBody \<and> (case from JUndefined of Inl e \<Rightarrow> False | Inr r \<Rightarrow> True))"

text \<open>
  The same for \<open>unnamed/part_002\<close>: the body parses, \<open>isValid\<close> holds, and the object
  literal evaluates (whether it does depends on neither the clock nor the environment).
\<close>

definition accepted_part002 :: "message \<Rightarrow> bool" where
  "accepted_part002 message =
     (case Body message of
        None \<Rightarrow> False
      | Some messageBody \<Rightarrow>
          isValid messageBody \<and>
          (case report_of \<lparr>AWS_REGION = None, SQS_QUEUE_URL = None, SQS_DLQ_URL = None,
                   NODE_ENV = None\<rparr> [] messageBody of
             Inl e \<Rightarrow> False
           | Inr r \<Rightarrow> True))"

text \<open>
  The body's \<open>petId\<close> converts to a string, so the timer callback of
  \<open>processReportData\<close> cannot throw.
\<close>

definition id_renders :: "message \<Rightarrow> bool" where
  "id_renders message =
     (case Body message of
        None \<Rightarrow> True
      | Some messageBody \<Rightarrow>
          (case ToString (get_prop messageBody ''petId'') of Inl e \<Rightarrow> False | Inr s \<Rightarrow> True))"

section \<open>Sample inputs\<close>

definition sample_body :: jsval where
  "sample_body =
     JObj [(''petId'', JStr ''P-17''), (''petName'', JStr ''Rex''), (''petType'', JStr ''dog''),
           (''ownerId'', JStr ''O-4''), (''ownerName'', JStr ''Ada''),
           (''ownerSurname'', JStr ''Byron''), (''vetId'', JStr ''V-2''),
           (''vetName'', JStr ''Jim''), (''vetSurname'', JStr ''Herriot''),
           (''appointmentDate'', JStr ''2024-05-01''), (''appointmentTime'', JStr ''10:30''),
           (''appointmentType'', JStr ''checkup''),
           (''appointmentDescription'', JStr ''yearly'')]"

text \<open>The same payload without \<open>vetName\<close>, and with \<open>vetName\<close> bound to the number 0.\<close>

definition sample_body_no_vetName :: jsval where
  "sample_body_no_vetName =
     JObj [(''petId'', JStr ''P-17''), (''petName'', JStr ''Rex''), (''petType'', JStr ''dog''),
           (''ownerId'', JStr ''O-4''), (''ownerName'', JStr ''Ada''),
           (''ownerSurname'', JStr ''Byron''), (''vetId'', JStr ''V-2''),
           (''vetSurname'', JStr ''Herriot''),
           (''appointmentDate'', JStr ''2024-05-01''), (''appointmentTime'', JStr ''10:30''),
           (''appointmentType'', JStr ''checkup''),
           (''appointmentDescription'', JStr ''yearly'')]"

definition sample_body_zero_vetName :: jsval where
  "sample_body_zero_vetName =
     JObj [(''petId'', JStr ''P-17''), (''petName'', JStr ''Rex''), (''petType'', JStr ''dog''),
           (''ownerId'', JStr ''O-4''), (''ownerName'', JStr ''Ada''),
           (''ownerSurname'', JStr ''Byron''), (''vetId'', JStr ''V-2''),
           (''vetName'', JNum ''0''), (''vetSurname'', JStr ''Herriot''),
           (''appointmentDate'', JStr ''2024-05-01''), (''appointmentTime'', JStr ''10:30''),
           (''appointmentType'', JStr ''checkup''),
           (''appointmentDescription'', JStr ''yearly'')]"

definition sample_message :: message where
  "sample_message = \<lparr>ReceiptHandle = ''rh-1'', Body = Some sample_body\<rparr>"

definition sample_message_no_vetName :: message where
  "sample_message_no_vetName = \<lparr>ReceiptHandle = ''rh-2'', Body = Some sample_body_no_vetName\<rparr>"

definition sample_message_zero_vetName :: message where
  "sample_message_zero_vetName =
     \<lparr>ReceiptHandle = ''rh-3'', Body = Some sample_body_zero_vetName\<rparr>"

definition sample_env :: environ where
  "sample_env =
     \<lparr>AWS_REGION = None, SQS_QUEUE_URL = Some ''https://sqs.local/reports'',
      SQS_DLQ_URL = None, NODE_ENV = None\<rparr>"

definition empty_env :: environ where
  "empty_env = \<lparr>AWS_REGION = None, SQS_QUEUE_URL = None, SQS_DLQ_URL = None, NODE_ENV = None\<rparr>"

definition start :: world where
  "start = \<lparr>calls = [], console = [], handed = []\<rparr>"

text \<open>
  A service that answers every receive with the one sample message and accepts every
  delete.
\<close>

definition sample_sqs :: "world \<Rightarrow> sqs_call \<Rightarrow> reply" where
  "sample_sqs w c =
     (case c of
        ReceiveMessage q n t v \<Rightarrow> Resolved (Some [sample_message])
      | DeleteMessage q h \<Rightarrow> Resolved None)"

definition sample_out :: outside where
  "sample_out =
     \<lparr>sqs = sample_sqs, now = (\<lambda>w. ''2024-05-01T10:00:00.000Z''), random = (\<lambda>w. 1 / 2)\<rparr>"

definition dlq_out :: outside where
  "dlq_out =
     \<lparr>sqs = sample_sqs, now = (\<lambda>w. ''2024-05-01T10:00:00.000Z''), random = (\<lambda>w. 0)\<rparr>"

text \<open>The same service with a clock that has moved on once a command has been sent.\<close>

definition later_out :: outside where
  "later_out =
     \<lparr>sqs = sample_sqs,
      now = (\<lambda>w. if calls w = [] then ''2024-05-01T10:00:00.000Z''
                 else ''2024-05-01T10:05:00.000Z''),
      random = (\<lambda>w. 1 / 2)\<rparr>"

text \<open>
  A batch of three: two valid messages around one without \<open>vetName\<close>, and a service
  that delivers it on every receive.
\<close>

definition sample_message_other :: message where
  "sample_message_other = \<lparr>ReceiptHandle = ''rh-4'', Body = Some sample_body\<rparr>"

definition sample_batch :: "message list" where
  "sample_batch = [sample_message, sample_message_no_vetName, sample_message_other]"

definition batch_sqs :: "world \<Rightarrow> sqs_call \<Rightarrow> reply" where
  "batch_sqs w c =
     (case c of
        ReceiveMessage q n t v \<Rightarrow> Resolved (Some sample_batch)
      | DeleteMessage q h \<Rightarrow> Resolved None)"

definition batch_out :: outside where
  "batch_out =
     \<lparr>sqs = batch_sqs, now = (\<lambda>w. ''2024-05-01T10:00:00.000Z''), random = (\<lambda>w. 1 / 2)\<rparr>"

text \<open>A mapper that returns, standing for any working \<open>PetClinicReport.from\<close>.\<close>

definition returning_from :: "jsval \<Rightarrow> error + unit" where
  "returning_from jsonData = Inr ()"

section \<open>Logging and sending\<close>

lemma console_log_fields [simp]:
  "calls (console_log s w) = calls w" "handed (console_log s w) = handed w"
  "console (console_log s w) = console w @ [Log s]"
  by (simp_all add: console_log_def)

lemma console_error_fields [simp]:
  "calls (console_error s w) = calls w" "handed (console_error s w) = handed w"
  "console (console_error s w) = console w @ [Err s]"
  by (simp_all add: console_error_def)

lemma send_eq [simp]:
  "fst (send out c w) = sqs out w c"
  "calls (snd (send out c w)) = calls w @ [c]"
  "handed (snd (send out c w)) = handed w"
  by (simp_all add: send_def)

lemma rethrow_fields [simp]:
  "fst (rethrow e w) = Throw (ProcessingError e)"
  "calls (snd (rethrow e w)) = calls w"
  "handed (snd (rethrow e w)) = handed w"
  by (simp_all add: rethrow_def)

section \<open>Facts about \<open>src/PetClinicReportProcessor.js\<close>\<close>

text \<open>
  What \<open>processMessage\<close> sends: one delete for an accepted message, to the queue
  that \<open>isRetry\<close> selects, and nothing otherwise.
\<close>

lemma deleteMessage_calls:
  "calls (snd (deleteMessage env out h t w)) =
     calls w @ [DeleteMessage (case t of None \<Rightarrow> queueUrl env | Some q \<Rightarrow> Some q) h]"
  by (simp add: deleteMessage_def send_def Let_def split: reply.splits)

lemma deleteMessage_handed:
  "handed (snd (deleteMessage env out h t w)) = handed w"
  by (simp add: deleteMessage_def send_def Let_def split: reply.splits)

lemma deleteMessage_cases:
  obtains (ok) w1 where "deleteMessage env out h t w = (Normal, w1)"
      "calls w1 = calls w @ [DeleteMessage (case t of None \<Rightarrow> queueUrl env | Some q \<Rightarrow> Some q) h]"
      "handed w1 = handed w"
      "sqs out w (DeleteMessage (case t of None \<Rightarrow> queueUrl env | Some q \<Rightarrow> Some q) h) \<noteq> Rejected"
    | (rejected) w1 where "deleteMessage env out h t w = (Throw SqsError, w1)"
      "calls w1 = calls w @ [DeleteMessage (case t of None \<Rightarrow> queueUrl env | Some q \<Rightarrow> Some q) h]"
      "handed w1 = handed w"
      "sqs out w (DeleteMessage (case t of None \<Rightarrow> queueUrl env | Some q \<Rightarrow> Some q) h) = Rejected"
  by (cases "sqs out w (DeleteMessage (case t of None \<Rightarrow> queueUrl env | Some q \<Rightarrow> Some q) h)")
     (simp_all add: deleteMessage_def send_def Let_def)

lemma target_default [simp]:
  "(case (if r then Some (dlqUrl env) else queueUrl env) of None \<Rightarrow> queueUrl env | Some q \<Rightarrow> Some q)
     = (if r then Some (dlqUrl env) else queueUrl env)"
  by (simp split: option.splits)

lemma processMessage_calls:
  "calls (snd (processMessage from env out m r w)) =
     calls w @ (if accepted from m
                then [DeleteMessage (if r then Some (dlqUrl env) else queueUrl env) (ReceiptHandle m)]
                else [])"
proof (cases "accepted from m")
  case False
  then show ?thesis
    by (auto simp add: processMessage_def accepted_def Let_def split: option.splits sum.splits)
next
  case True
  then obtain b x where b: "Body m = Some b" "nullChecks b" "from JUndefined = Inr x"
    by (auto simp add: accepted_def split: option.splits sum.splits)
  show ?thesis
    by (rule deleteMessage_cases [of env out "ReceiptHandle m" "if r then Some (dlqUrl env) else queueUrl env"
          "console_log ''Processed report:'' (console_log ''Received message:'' w)"])
       (simp_all add: processMessage_def Let_def b True)
qed

lemma processMessage_handed:
  "handed (snd (processMessage from env out m r w)) = handed w"
proof (cases "accepted from m")
  case False
  then show ?thesis
    by (auto simp add: processMessage_def accepted_def Let_def split: option.splits sum.splits)
next
  case True
  then obtain b x where b: "Body m = Some b" "nullChecks b" "from JUndefined = Inr x"
    by (auto simp add: accepted_def split: option.splits sum.splits)
  show ?thesis
    by (rule deleteMessage_cases [of env out "ReceiptHandle m" "if r then Some (dlqUrl env) else queueUrl env"
          "console_log ''Processed report:'' (console_log ''Received message:'' w)"])
       (simp_all add: processMessage_def Let_def b True)
qed

lemma processMessage_rejected:
  "\<not> accepted from m \<Longrightarrow> \<exists>e. fst (processMessage from env out m r w) = Throw (ProcessingError e)"
  by (auto simp add: processMessage_def accepted_def Let_def split: option.splits sum.splits)

lemma processMessage_fst:
  "fst (processMessage from env out m r w) = Normal \<or>
   (\<exists>e. fst (processMessage from env out m r w) = Throw (ProcessingError e))"
proof (cases "accepted from m")
  case False
  then show ?thesis using processMessage_rejected by blast
next
  case True
  then obtain b x where b: "Body m = Some b" "nullChecks b" "from JUndefined = Inr x"
    by (auto simp add: accepted_def split: option.splits sum.splits)
  show ?thesis
    by (rule deleteMessage_cases [of env out "ReceiptHandle m" "if r then Some (dlqUrl env) else queueUrl env"
          "console_log ''Processed report:'' (console_log ''Received message:'' w)"])
       (simp_all add: processMessage_def Let_def b True)
qed

lemma processMessage_Normal_accepted:
  "fst (processMessage from env out m r w) = Normal \<Longrightarrow> accepted from m"
  using processMessage_rejected [of "from" m env out r w] by auto



lemma processPromises_calls:
  "calls (snd (processPromises from env out batch w)) =
     calls w @ map (\<lambda>m. DeleteMessage (queueUrl env) (ReceiptHandle m)) (filter (accepted from) batch)"
proof (induction batch arbitrary: w)
  case Nil
  then show ?case by simp
next
  case (Cons m batch)
  obtain c w1 where pm: "processMessage from env out m False w = (c, w1)" by (cases "processMessage from env out m False w")
  obtain cs w2 where pp: "processPromises from env out batch w1 = (cs, w2)" by (cases "processPromises from env out batch w1")
  have "calls w1 = calls w @ (if accepted from m then [DeleteMessage (queueUrl env) (ReceiptHandle m)] else [])"
    using processMessage_calls [of "from" env out m False w] pm by simp
  moreover have "calls w2 = calls w1 @ map (\<lambda>m. DeleteMessage (queueUrl env) (ReceiptHandle m)) (filter (accepted from) batch)"
    using Cons.IH [of w1] pp by simp
  ultimately show ?case using pm pp by simp
qed

text \<open>
  The dead-letter loop sends deletes to the dead-letter queue only, each with the receipt
  handle of a message of the batch; an accepted message is deleted twice.
\<close>

lemma reprocess_calls:
  "\<exists>dels. calls (reprocess from env out batch w) = calls w @ dels
     \<and> list_all (\<lambda>c. \<exists>m \<in> set batch. c = DeleteMessage (Some (dlqUrl env)) (ReceiptHandle m)) dels
     \<and> (list_all (\<lambda>m. \<not> accepted from m) batch \<longrightarrow> dels = [])"
proof (induction batch arbitrary: w)
  case Nil
  then show ?case by simp
next
  case (Cons m batch)
  let ?P = "\<lambda>ms c. \<exists>m \<in> set ms. c = DeleteMessage (Some (dlqUrl env)) (ReceiptHandle m)"
  have mono: "list_all (?P batch) ds \<Longrightarrow> list_all (?P (m # batch)) ds" for ds
    by (auto simp add: list_all_iff)
  obtain c w1 where pm: "processMessage from env out m True w = (c, w1)"
    by (cases "processMessage from env out m True w")
  have w1: "calls w1 = calls w @ (if accepted from m
              then [DeleteMessage (Some (dlqUrl env)) (ReceiptHandle m)] else [])"
    using processMessage_calls [of "from" env out m True w] pm by simp
  have cN: "c = Normal \<Longrightarrow> accepted from m"
    using processMessage_Normal_accepted [of "from" env out m True w] pm by simp
  show ?case
  proof (cases "c = Normal")
    case False
    from Cons.IH [of "console_error ''Failed to reprocess DLQ message:'' w1"]
    obtain dels where d: "calls (reprocess from env out batch (console_error ''Failed to reprocess DLQ message:'' w1))
        = calls w1 @ dels" "list_all (?P batch) dels"
        "list_all (\<lambda>m. \<not> accepted from m) batch \<longrightarrow> dels = []" by auto
    have r: "reprocess from env out (m # batch) w =
             reprocess from env out batch (console_error ''Failed to reprocess DLQ message:'' w1)"
      using pm False by (cases c) simp_all
    show ?thesis
      apply (rule exI [of _ "(if accepted from m
              then [DeleteMessage (Some (dlqUrl env)) (ReceiptHandle m)] else []) @ dels"])
      using d w1 r mono [OF d(2)] by simp
  next
    case True
    obtain c2 w2 where dm: "deleteMessage env out (ReceiptHandle m) (Some (dlqUrl env)) w1 = (c2, w2)"
      by (cases "deleteMessage env out (ReceiptHandle m) (Some (dlqUrl env)) w1")
    have w2: "calls w2 = calls w1 @ [DeleteMessage (Some (dlqUrl env)) (ReceiptHandle m)]"
      using deleteMessage_calls [of env out "ReceiptHandle m" "Some (dlqUrl env)" w1] dm by simp
    obtain w3 where r: "reprocess from env out (m # batch) w = reprocess from env out batch w3"
      and w3: "calls w3 = calls w2"
    proof (cases "c2 = Normal")
      case True
      with pm \<open>c = Normal\<close> dm that [of "console_log ''Successfully reprocessed message from DLQ'' w2"]
      show thesis by simp
    next
      case False
      with pm \<open>c = Normal\<close> dm that [of "console_error ''Failed to reprocess DLQ message:'' w2"]
      show thesis by (cases c2) simp_all
    qed
    from Cons.IH [of w3]
    obtain dels where d: "calls (reprocess from env out batch w3) = calls w3 @ dels"
      "list_all (?P batch) dels" by auto
    show ?thesis
      apply (rule exI [of _ "[DeleteMessage (Some (dlqUrl env)) (ReceiptHandle m),
               DeleteMessage (Some (dlqUrl env)) (ReceiptHandle m)] @ dels"])
      using d w1 w2 w3 r mono [OF d(2)] cN [OF True] by simp
  qed
qed

lemma reprocess_single_rejected:
  "\<not> accepted from m \<Longrightarrow> calls (reprocess from env out [m] w) = calls w"
  using reprocess_calls [of "from" env out "[m]" w] by auto

lemma dlq_accepted_two_deletes:
  assumes "fst (processMessage mapper env out m True w) = Normal"
  shows "calls (reprocess mapper env out [m] w) =
     calls w @ [DeleteMessage (Some (dlqUrl env)) (ReceiptHandle m),
                DeleteMessage (Some (dlqUrl env)) (ReceiptHandle m)]"
proof -
  obtain w1 where pm: "processMessage mapper env out m True w = (Normal, w1)"
    using assms by (cases "processMessage mapper env out m True w") simp
  have acc: "accepted mapper m"
    using processMessage_Normal_accepted [OF assms] .
  have w1: "calls w1 = calls w @ [DeleteMessage (Some (dlqUrl env)) (ReceiptHandle m)]"
    using processMessage_calls [of mapper env out m True w] pm acc by simp
  show ?thesis
    by (rule deleteMessage_cases [of env out "ReceiptHandle m" "Some (dlqUrl env)" w1])
       (simp_all add: pm w1)
qed

lemma processDeadLetterQueue_calls:
  "\<exists>dels. calls (processDeadLetterQueue from env out w) =
       calls w @ ReceiveMessage (Some (dlqUrl env)) 10 5 30 # dels
     \<and> list_all (\<lambda>c. \<exists>h. c = DeleteMessage (Some (dlqUrl env)) h) dels"
proof (cases "sqs out w (ReceiveMessage (Some (dlqUrl env)) 10 5 30)")
  case Rejected
  then show ?thesis by (simp add: processDeadLetterQueue_def send_def)
next
  case (Resolved data)
  show ?thesis
  proof (cases data)
    case None
    with Resolved show ?thesis by (simp add: processDeadLetterQueue_def send_def)
  next
    case (Some batch)
    let ?w1 = "console_log ''Processing messages from DLQ''
                 (w\<lparr>calls := calls w @ [ReceiveMessage (Some (dlqUrl env)) 10 5 30]\<rparr>)"
    from reprocess_calls [of "from" env out batch ?w1]
    obtain dels where d: "calls (reprocess from env out batch ?w1) = calls ?w1 @ dels"
      "list_all (\<lambda>c. \<exists>m \<in> set batch. c = DeleteMessage (Some (dlqUrl env)) (ReceiptHandle m)) dels"
      by auto
    from d(2) have d2: "list_all (\<lambda>c. \<exists>h. c = DeleteMessage (Some (dlqUrl env)) h) dels"
      by (auto simp add: list_all_iff)
    show ?thesis
    proof (cases "batch = []")
      case True
      with Resolved Some show ?thesis by (simp add: processDeadLetterQueue_def send_def)
    next
      case False
      with Resolved Some d d2 show ?thesis
        by (simp add: processDeadLetterQueue_def send_def)
    qed
  qed
qed

lemma pollQueue_step:
  "\<not> unset (queueUrl env) \<Longrightarrow> fst (pollQueue from env out w) = SetTimeout 100"
  by (simp add: pollQueue_def Let_def)

lemma poll_loop_pollQueue:
  "\<not> unset (queueUrl env) \<Longrightarrow> fst (poll_loop (pollQueue from env out) n w) = SetTimeout 100"
proof (induction n arbitrary: w)
  case 0
  then show ?case by (simp add: pollQueue_step)
next
  case (Suc n)
  obtain w1 where "pollQueue from env out w = (SetTimeout 100, w1)"
    using pollQueue_step [OF Suc.prems, of "from" out w] by (cases "pollQueue from env out w") simp
  with Suc.IH [OF Suc.prems, of w1] show ?case by simp
qed

section \<open>Facts about the validity tests\<close>

lemma isValid_iff_nullChecks: "isValid b \<longleftrightarrow> nullChecks b"
  by (auto simp add: isValid_def nullChecks_def requiredFields_def)

lemma falsy_field_invalid:
  "field \<in> set requiredFields \<Longrightarrow> \<not> truthy (get_prop b field) \<Longrightarrow> \<not> isValid b"
  by (auto simp add: isValid_def list_all_iff)

lemma invalid_processMessage:
  assumes "Body m = Some b" "\<not> isValid b"
  shows "fst (processMessage from env out m isRetry w) = Throw (ProcessingError InvalidFormat)"
    and "calls (snd (processMessage from env out m isRetry w)) = calls w"
    and "handed (snd (processMessage from env out m isRetry w)) = handed w"
  using assms by (simp_all add: processMessage_def Let_def isValid_iff_nullChecks)

lemma invalid_processMessage_part002:
  assumes "Body m = Some b" "\<not> isValid b"
  shows "fst (processMessage_part002 env out m w) = Throw (ProcessingError InvalidFormat)"
    and "calls (snd (processMessage_part002 env out m w)) = calls w"
    and "handed (snd (processMessage_part002 env out m w)) = handed w"
  using assms by (simp_all add: processMessage_part002_def Let_def)

section \<open>Facts about \<open>unnamed/part_002\<close>\<close>

text \<open>
  The object literal succeeds or fails whatever the clock and the environment; it
  succeeds when the four names are strings, and fails when one is an object with an own
  property \<open>toString\<close>.
\<close>

lemma report_of_transfer:
  "report_of env c b = Inr r \<Longrightarrow>
   report_of env' c' b =
     Inr (r\<lparr>processedAt := c', environment := or_else (NODE_ENV env') ''production''\<rparr>)"
  by (auto simp add: report_of_def split: sum.splits)

lemma report_of_id:
  "report_of env c b = Inr r \<Longrightarrow> report.id r = get_prop b ''petId''"
  by (auto simp add: report_of_def split: sum.splits)

lemma report_of_environment:
  "report_of env c b = Inr r \<Longrightarrow> environment r = or_else (NODE_ENV env) ''production''"
  by (auto simp add: report_of_def split: sum.splits)

lemma string_names_map:
  assumes "get_prop b ''ownerName'' = JStr a1" "get_prop b ''ownerSurname'' = JStr a2"
    and "get_prop b ''vetName'' = JStr a3" "get_prop b ''vetSurname'' = JStr a4"
  shows "\<exists>r. report_of env clock b = Inr r"
  by (simp add: report_of_def template_def assms)

lemma object_name_throws:
  assumes "get_prop b ''ownerName'' = JObj kvs" "map_of kvs ''toString'' = Some v"
  shows "report_of env clock b = Inl TypeError"
  by (simp add: report_of_def template_def assms)

lemma accepted_part002_iff:
  "accepted_part002 m \<longleftrightarrow> (\<exists>b r. Body m = Some b \<and> isValid b \<and> report_of env c b = Inr r)"
proof
  assume "accepted_part002 m"
  then obtain b r0 where b: "Body m = Some b" "isValid b"
    and r0: "report_of \<lparr>AWS_REGION = None, SQS_QUEUE_URL = None, SQS_DLQ_URL = None,
                   NODE_ENV = None\<rparr> [] b = Inr r0"
    by (auto simp add: accepted_part002_def split: option.splits sum.splits)
  from report_of_transfer [OF r0, of env c] b
  show "\<exists>b r. Body m = Some b \<and> isValid b \<and> report_of env c b = Inr r" by blast
next
  assume "\<exists>b r. Body m = Some b \<and> isValid b \<and> report_of env c b = Inr r"
  then obtain b r where b: "Body m = Some b" "isValid b" and r: "report_of env c b = Inr r" by blast
  from report_of_transfer [OF r] b show "accepted_part002 m"
    by (simp add: accepted_part002_def)
qed

lemma deleteMessage_part002_cases:
  obtains (ok) w1 where "deleteMessage_part002 env out h w = (Normal, w1)"
      "calls w1 = calls w @ [DeleteMessage (Some (queueUrl_part002 env)) h]"
      "handed w1 = handed w"
      "sqs out w (DeleteMessage (Some (queueUrl_part002 env)) h) \<noteq> Rejected"
    | (rejected) w1 where "deleteMessage_part002 env out h w = (Throw SqsError, w1)"
      "calls w1 = calls w @ [DeleteMessage (Some (queueUrl_part002 env)) h]"
      "handed w1 = handed w"
      "sqs out w (DeleteMessage (Some (queueUrl_part002 env)) h) = Rejected"
  by (cases "sqs out w (DeleteMessage (Some (queueUrl_part002 env)) h)")
     (simp_all add: deleteMessage_part002_def send_def)

lemma processMessage_part002_rejected:
  assumes "\<not> accepted_part002 m"
  shows "\<exists>e. fst (processMessage_part002 env out m w) = Throw (ProcessingError e)"
    and "calls (snd (processMessage_part002 env out m w)) = calls w"
    and "handed (snd (processMessage_part002 env out m w)) = handed w"
  using assms
    accepted_part002_iff [of m env "now out (console_log ''Processing report message:'' w)"]
  by (auto simp add: processMessage_part002_def Let_def split: option.splits sum.splits)

lemma processMessage_part002_crash:
  assumes "accepted_part002 m" "\<not> id_renders m"
  shows "\<exists>e. fst (processMessage_part002 env out m w) = Crash e"
    and "calls (snd (processMessage_part002 env out m w)) = calls w"
proof -
  from assms(1) obtain b r where b: "Body m = Some b" "isValid b"
    and r: "report_of env (now out (console_log ''Processing report message:'' w)) b = Inr r"
    using accepted_part002_iff [of m env "now out (console_log ''Processing report message:'' w)"]
    by blast
  from assms(2) b obtain e where e: "ToString (report.id r) = Inl e"
    using report_of_id [OF r] by (auto simp add: id_renders_def split: sum.splits)
  show "\<exists>e. fst (processMessage_part002 env out m w) = Crash e"
    by (simp add: processMessage_part002_def Let_def b r e processReportData_def)
  show "calls (snd (processMessage_part002 env out m w)) = calls w"
    by (simp add: processMessage_part002_def Let_def b r e processReportData_def)
qed

lemma processMessage_part002_accepted:
  assumes "accepted_part002 m" "id_renders m"
  obtains r where
    "Body m = Some (the (Body m))"
    "report_of env (now out (console_log ''Processing report message:'' w)) (the (Body m)) = Inr r"
    "calls (snd (processMessage_part002 env out m w)) =
       calls w @ [DeleteMessage (Some (queueUrl_part002 env)) (ReceiptHandle m)]"
    "handed (snd (processMessage_part002 env out m w)) = handed w @ [r]"
    "fst (processMessage_part002 env out m w) = Normal \<or>
     fst (processMessage_part002 env out m w) = Throw (ProcessingError SqsError)"
proof -
  from assms(1) obtain b r where b: "Body m = Some b" "isValid b"
    and r: "report_of env (now out (console_log ''Processing report message:'' w)) b = Inr r"
    using accepted_part002_iff [of m env "now out (console_log ''Processing report message:'' w)"]
    by blast
  from assms(2) b obtain s where s: "ToString (report.id r) = Inr s"
    using report_of_id [OF r] by (auto simp add: id_renders_def split: sum.splits)
  let ?w2 = "console_log (''Report '' @ s @ '' processed in '' @ environment r @ '' environment'')
               ((console_log ''Successfully processed report:''
                   (console_log ''Processing report message:'' w))\<lparr>handed := handed w @ [r]\<rparr>)"
  have pm: "processMessage_part002 env out m w =
      (case deleteMessage_part002 env out (ReceiptHandle m) ?w2 of
         (Normal, w3) \<Rightarrow> (Normal, console_log ''Message processed and removed from queue'' w3)
       | (Throw e, w3) \<Rightarrow> rethrow e w3
       | (Crash e, w3) \<Rightarrow> (Crash e, w3))"
    by (simp add: processMessage_part002_def Let_def b r s processReportData_def)
  have "calls (snd (processMessage_part002 env out m w)) =
       calls w @ [DeleteMessage (Some (queueUrl_part002 env)) (ReceiptHandle m)]
      \<and> handed (snd (processMessage_part002 env out m w)) = handed w @ [r]
      \<and> (fst (processMessage_part002 env out m w) = Normal \<or>
     fst (processMessage_part002 env out m w) = Throw (ProcessingError SqsError))"
    by (rule deleteMessage_part002_cases [of env out "ReceiptHandle m" ?w2])
       (simp_all add: pm)
  with that [of r] b r show thesis by simp
qed

lemma handed_report:
  assumes "Body m = Some b" "isValid b"
    and "report_of env (now out (console_log ''Processing report message:'' w)) b = Inr r"
  shows "handed (snd (processMessage_part002 env out m w)) = handed w @ [r]"
proof (cases "ToString (report.id r)")
  case (Inl e)
  then show ?thesis
    by (simp add: processMessage_part002_def Let_def assms processReportData_def)
next
  case (Inr s)
  let ?w2 = "console_log (''Report '' @ s @ '' processed in '' @ environment r @ '' environment'')
               ((console_log ''Successfully processed report:''
                   (console_log ''Processing report message:'' w))\<lparr>handed := handed w @ [r]\<rparr>)"
  have pm: "processMessage_part002 env out m w =
      (case deleteMessage_part002 env out (ReceiptHandle m) ?w2 of
         (Normal, w3) \<Rightarrow> (Normal, console_log ''Message processed and removed from queue'' w3)
       | (Throw e, w3) \<Rightarrow> rethrow e w3
       | (Crash e, w3) \<Rightarrow> (Crash e, w3))"
    by (simp add: processMessage_part002_def Let_def assms Inr processReportData_def)
  show ?thesis
    by (rule deleteMessage_part002_cases [of env out "ReceiptHandle m" ?w2])
       (simp_all add: pm)
qed

lemma object_id_crashes:
  assumes "Body m = Some b" "isValid b"
    and "report_of env (now out (console_log ''Processing report message:'' w)) b = Inr r"
    and "get_prop b ''petId'' = JObj kvs" "map_of kvs ''toString'' = Some v"
  shows "fst (processMessage_part002 env out m w) = Crash TypeError"
    and "calls (snd (processMessage_part002 env out m w)) = calls w"
  using assms report_of_id [OF assms(3)]
  by (simp_all add: processMessage_part002_def Let_def processReportData_def)

lemma processMessage_part002_rejected_delete:
  assumes "accepted_part002 m" "id_renders m"
    and "fst (processMessage_part002 env out m w) \<noteq> Normal"
  shows "\<exists>w1. sqs out w1 (DeleteMessage (Some (queueUrl_part002 env)) (ReceiptHandle m)) = Rejected"
proof -
  from assms(1) obtain b r where b: "Body m = Some b" "isValid b"
    and r: "report_of env (now out (console_log ''Processing report message:'' w)) b = Inr r"
    using accepted_part002_iff [of m env "now out (console_log ''Processing report message:'' w)"]
    by blast
  from assms(2) b obtain s where s: "ToString (report.id r) = Inr s"
    using report_of_id [OF r] by (auto simp add: id_renders_def split: sum.splits)
  let ?w2 = "console_log (''Report '' @ s @ '' processed in '' @ environment r @ '' environment'')
               ((console_log ''Successfully processed report:''
                   (console_log ''Processing report message:'' w))\<lparr>handed := handed w @ [r]\<rparr>)"
  have pm: "processMessage_part002 env out m w =
      (case deleteMessage_part002 env out (ReceiptHandle m) ?w2 of
         (Normal, w3) \<Rightarrow> (Normal, console_log ''Message processed and removed from queue'' w3)
       | (Throw e, w3) \<Rightarrow> rethrow e w3
       | (Crash e, w3) \<Rightarrow> (Crash e, w3))"
    by (simp add: processMessage_part002_def Let_def b r s processReportData_def)
  show ?thesis
  proof (rule deleteMessage_part002_cases [of env out "ReceiptHandle m" ?w2])
    fix w1 assume "deleteMessage_part002 env out (ReceiptHandle m) ?w2 = (Normal, w1)"
    with pm assms(3) show ?thesis by simp
  next
    fix w1 assume "sqs out ?w2 (DeleteMessage (Some (queueUrl_part002 env)) (ReceiptHandle m)) = Rejected"
    then show ?thesis by blast
  qed
qed

lemma processEach_calls:
  "list_all id_renders batch \<Longrightarrow>
   fst (processEach env out batch w) = Normal \<and>
   calls (snd (processEach env out batch w)) =
     calls w @ map (\<lambda>m. DeleteMessage (Some (queueUrl_part002 env)) (ReceiptHandle m))
                 (filter accepted_part002 batch)"
proof (induction batch arbitrary: w)
  case Nil
  then show ?case by simp
next
  case (Cons m batch)
  then have ids: "id_renders m" "list_all id_renders batch" by simp_all
  obtain c w1 where pm: "processMessage_part002 env out m w = (c, w1)"
    by (cases "processMessage_part002 env out m w")
  show ?case
  proof (cases "accepted_part002 m")
    case False
    from processMessage_part002_rejected [OF False, of env out w] pm
    obtain e where "c = Throw (ProcessingError e)" "calls w1 = calls w" by auto
    with pm False Cons.IH [OF ids(2), of "console_error ''Failed to process message:'' w1"]
    show ?thesis by simp
  next
    case True
    from processMessage_part002_accepted [OF True ids(1), of env out w] pm
    have w1: "calls w1 = calls w @ [DeleteMessage (Some (queueUrl_part002 env)) (ReceiptHandle m)]"
      and c: "c = Normal \<or> c = Throw (ProcessingError SqsError)"
      by (metis snd_conv, metis fst_conv)
    from c show ?thesis
    proof
      assume "c = Normal"
      with pm True w1 Cons.IH [OF ids(2), of w1] show ?thesis by simp
    next
      assume "c = Throw (ProcessingError SqsError)"
      with pm True w1 Cons.IH [OF ids(2), of "console_error ''Failed to process message:'' w1"]
      show ?thesis by simp
    qed
  qed
qed

lemma processEach_skips_rejected:
  assumes "\<not> accepted_part002 m"
  shows "processEach env out (m # rest) w =
           processEach env out rest
             (console_error ''Failed to process message:''
                (snd (processMessage_part002 env out m w)))"
proof -
  from processMessage_part002_rejected(1) [OF assms, of env out w]
  obtain e where "fst (processMessage_part002 env out m w) = Throw (ProcessingError e)" ..
  then show ?thesis
    by (cases "processMessage_part002 env out m w") simp
qed

lemma queueUrl_part002_set: "\<not> unset (Some (queueUrl_part002 env))"
  by (simp add: unset_def queueUrl_part002_def or_else_def split: option.splits)

lemma pollQueue_part002_step:
  assumes "\<And>batch. sqs out w (ReceiveMessage (Some (queueUrl_part002 env)) 10 20 300) = Resolved (Some batch)
            \<Longrightarrow> list_all id_renders batch"
  shows "fst (pollQueue_part002 env out w) = SetTimeout 1000"
proof (cases "sqs out w (ReceiveMessage (Some (queueUrl_part002 env)) 10 20 300)")
  case Rejected
  then show ?thesis by (simp add: pollQueue_part002_def send_def queueUrl_part002_set)
next
  case (Resolved data)
  show ?thesis
  proof (cases data)
    case None
    with Resolved show ?thesis by (simp add: pollQueue_part002_def send_def queueUrl_part002_set)
  next
    case (Some batch)
    with Resolved assms have "list_all id_renders batch" by simp
    let ?w1 = "console_log ''Received messages from pet-clinic-reports queue''
                 (w\<lparr>calls := calls w @ [ReceiveMessage (Some (queueUrl_part002 env)) 10 20 300]\<rparr>)"
    from processEach_calls [OF \<open>list_all id_renders batch\<close>, of env out ?w1]
    obtain w2 where "processEach env out batch ?w1 = (Normal, w2)"
      by (cases "processEach env out batch ?w1") simp
    then show ?thesis using Resolved Some
      by (simp add: pollQueue_part002_def send_def queueUrl_part002_set)
  qed
qed

lemma poll_loop_pollQueue_part002:
  assumes "\<And>w' batch. sqs out w' (ReceiveMessage (Some (queueUrl_part002 env)) 10 20 300) = Resolved (Some batch)
            \<Longrightarrow> list_all id_renders batch"
  shows "fst (poll_loop (pollQueue_part002 env out) n w) = SetTimeout 1000"
proof (induction n arbitrary: w)
  case 0
  show ?case using pollQueue_part002_step [of out _ env] assms by simp
next
  case (Suc n)
  have "fst (pollQueue_part002 env out w) = SetTimeout 1000"
    using pollQueue_part002_step [of out w env] assms by simp
  then obtain w1 where "pollQueue_part002 env out w = (SetTimeout 1000, w1)"
    by (cases "pollQueue_part002 env out w") simp
  with Suc.IH [of w1] show ?case by simp
qed

section \<open>Facts about \<open>unnamed/part_001\<close>\<close>

lemma processMessage_part001_Normal:
  "fst (processMessage_part001 from env out m w) = Normal"
  by (simp add: processMessage_part001_def split: sum.splits option.splits prod.splits completion.splits)

section \<open>The sample inputs evaluated\<close>

lemma sample_valid: "nullChecks sample_body" "isValid sample_body"
  by (simp_all add: nullChecks_def isValid_def requiredFields_def sample_body_def)

lemma sample_no_vetName_invalid:
  "\<not> nullChecks sample_body_no_vetName" "\<not> isValid sample_body_no_vetName"
  by (simp_all add: isValid_iff_nullChecks nullChecks_def sample_body_no_vetName_def)

lemma sample_accepted:
  "accepted returning_from sample_message" "\<not> accepted returning_from sample_message_no_vetName"
  "accepted returning_from sample_message_other"
  "\<not> accepted PetClinicReport_from sample_message"
  by (simp_all add: accepted_def sample_message_def sample_message_no_vetName_def sample_valid
        sample_message_other_def sample_no_vetName_invalid
        returning_from_def PetClinicReport_from_def)

lemma sample_report:
  "report_of env clock sample_body =
     Inr \<lparr>report.id = JStr ''P-17'',
          petInfo = \<lparr>petInfo.name = JStr ''Rex'', type = JStr ''dog''\<rparr>,
          ownerInfo = \<lparr>personInfo.id = JStr ''O-4'', name = ''Ada Byron''\<rparr>,
          vetInfo = \<lparr>personInfo.id = JStr ''V-2'', name = ''Jim Herriot''\<rparr>,
          appointment = \<lparr>date = JStr ''2024-05-01'', time = JStr ''10:30'',
                          type = JStr ''checkup'', description = JStr ''yearly''\<rparr>,
          processedAt = clock,
          environment = or_else (NODE_ENV env) ''production''\<rparr>"
  by (simp add: report_of_def template_def sample_body_def)

lemma sample_accepted_part002:
  "accepted_part002 sample_message" "\<not> accepted_part002 sample_message_no_vetName"
  "accepted_part002 sample_message_other"
  "id_renders sample_message" "id_renders sample_message_no_vetName" "id_renders sample_message_other"
  by (simp_all add: accepted_part002_def sample_message_def sample_message_no_vetName_def sample_valid
         sample_report sample_message_other_def id_renders_def sample_no_vetName_invalid)
     (simp_all add: sample_body_no_vetName_def sample_body_def)

lemma sample_first_attempt:
  "processMessage_part002 sample_env later_out sample_message start =
    (Normal,
     \<lparr>calls = [DeleteMessage (Some ''https://sqs.local/reports'') ''rh-1''],
      console = [Log ''Processing report message:'', Log ''Successfully processed report:'',
                 Log ''Report P-17 processed in production environment'',
                 Log ''Message processed and removed from queue''],
      handed = [\<lparr>report.id = JStr ''P-17'',
       petInfo = \<lparr>petInfo.name = JStr ''Rex'', type = JStr ''dog''\<rparr>,
       ownerInfo = \<lparr>personInfo.id = JStr ''O-4'', name = ''Ada Byron''\<rparr>,
       vetInfo = \<lparr>personInfo.id = JStr ''V-2'', name = ''Jim Herriot''\<rparr>,
       appointment = \<lparr>date = JStr ''2024-05-01'', time = JStr ''10:30'',
                       type = JStr ''checkup'', description = JStr ''yearly''\<rparr>,
       processedAt = ''2024-05-01T10:00:00.000Z'',
       environment = ''production''\<rparr>]\<rparr>)"
  by (simp add: processMessage_part002_def sample_message_def sample_valid sample_report Let_def
        processReportData_def deleteMessage_part002_def send_def later_out_def sample_sqs_def
        start_def console_log_def sample_env_def or_else_def queueUrl_part002_def)

section \<open>Deleting after success\<close>




section \<open>The map step\<close>

text \<open>
  Claim C2. In \<open>src/PetClinicReportProcessor.js\<close> the map step of a message that passed
  all thirteen tests throws: \<open>PetClinicReport.from\<close> is not defined. Nothing is deleted.
\<close>

theorem map_step_throws_on_valid_payload:
  "nullChecks sample_body
   \<and> processMessage PetClinicReport_from sample_env sample_out sample_message False start =
     (Throw (ProcessingError ReferenceError),
      \<lparr>calls = [],
       console = [Log ''Received message:'', Err ''Error processing message:''],
       handed = []\<rparr>)"
  by (simp add: processMessage_def sample_valid sample_message_def PetClinicReport_from_def
        rethrow_def console_log_def console_error_def start_def Let_def)

section \<open>Missing fields\<close>

text \<open>
  Claim C3. When one of the thirteen required fields is absent, \<open>null\<close> or the empty
  string, validation fails: both validity tests are false, \<open>processMessage\<close> throws the
  invalid-format error in both processors, and no report is handed on.
\<close>

theorem missing_field_rejected:
  assumes field: "field \<in> set requiredFields"
    and missing: "get_prop b field = JUndefined \<or> get_prop b field = JNull
                  \<or> get_prop b field = JStr []"
    and body: "Body m = Some b"
  shows "\<not> nullChecks b \<and> \<not> isValid b
    \<and> fst (processMessage from env out m isRetry w) = Throw (ProcessingError InvalidFormat)
    \<and> handed (snd (processMessage from env out m isRetry w)) = handed w
    \<and> fst (processMessage_part002 env out m w) = Throw (ProcessingError InvalidFormat)
    \<and> handed (snd (processMessage_part002 env out m w)) = handed w"
proof -
  from missing have "\<not> truthy (get_prop b field)" by auto
  with field have inv: "\<not> isValid b" by (rule falsy_field_invalid)
  then have "\<not> nullChecks b" by (simp add: isValid_iff_nullChecks)
  with inv show ?thesis
    by (simp add: invalid_processMessage [OF body inv] invalid_processMessage_part002 [OF body inv])
qed

theorem missing_field_rejected_witness:
  "''vetName'' \<in> set requiredFields
   \<and> get_prop sample_body_no_vetName ''vetName'' = JUndefined
   \<and> Body sample_message_no_vetName = Some sample_body_no_vetName
   \<and> \<not> isValid sample_body_no_vetName
   \<and> fst (processMessage returning_from sample_env sample_out sample_message_no_vetName False start)
       = Throw (ProcessingError InvalidFormat)
   \<and> fst (processMessage_part002 sample_env sample_out sample_message_no_vetName start)
       = Throw (ProcessingError InvalidFormat)
   \<and> handed (snd (processMessage_part002 sample_env sample_out sample_message_no_vetName start)) = []"
proof -
  have f: "''vetName'' \<in> set requiredFields" by (simp add: requiredFields_def)
  have g: "get_prop sample_body_no_vetName ''vetName'' = JUndefined"
    by (simp add: sample_body_no_vetName_def)
  have b: "Body sample_message_no_vetName = Some sample_body_no_vetName"
    by (simp add: sample_message_no_vetName_def)
  from g have g': "get_prop sample_body_no_vetName ''vetName'' = JUndefined \<or>
    get_prop sample_body_no_vetName ''vetName'' = JNull \<or>
    get_prop sample_body_no_vetName ''vetName'' = JStr []" by simp
  show ?thesis
    using missing_field_rejected [OF f g' b, of returning_from sample_env sample_out False start] f g b
    by (simp add: start_def)
qed

section \<open>No delete after a failure\<close>

text \<open>
  Claim C4. When the validate or map step of a message fails, no delete command is sent
  for it: not by \<open>processMessage\<close> on either queue, not by the reprocessing loop of the
  dead-letter queue, and not by the processor of \<open>unnamed/part_002\<close>.
\<close>

theorem no_delete_on_failure:
  "(\<not> accepted from m \<longrightarrow>
      calls (snd (processMessage from env out m isRetry w)) = calls w
      \<and> calls (reprocess from env out [m] w) = calls w)
   \<and> (\<not> accepted_part002 m \<longrightarrow>
      calls (snd (processMessage_part002 env out m w)) = calls w)"
proof (intro conjI impI)
  assume "\<not> accepted from m"
  then show "calls (snd (processMessage from env out m isRetry w)) = calls w"
    by (simp add: processMessage_calls)
  from \<open>\<not> accepted from m\<close> show "calls (reprocess from env out [m] w) = calls w"
    by (rule reprocess_single_rejected)
next
  assume "\<not> accepted_part002 m"
  then show "calls (snd (processMessage_part002 env out m w)) = calls w"
    by (rule processMessage_part002_rejected(2))
qed

theorem no_delete_on_failure_witness:
  "\<not> accepted PetClinicReport_from sample_message
   \<and> calls (snd (processMessage PetClinicReport_from sample_env sample_out sample_message False start)) = []
   \<and> \<not> accepted returning_from sample_message_no_vetName
   \<and> calls (reprocess returning_from sample_env sample_out [sample_message_no_vetName] start) = []
   \<and> \<not> accepted_part002 sample_message_no_vetName
   \<and> calls (snd (processMessage_part002 sample_env sample_out sample_message_no_vetName start)) = []"
  using no_delete_on_failure [of PetClinicReport_from sample_message sample_env sample_out False start]
    no_delete_on_failure [of returning_from sample_message_no_vetName sample_env sample_out False start]
    sample_accepted sample_accepted_part002
  by (simp add: start_def)

section \<open>A second delivery of the same message\<close>

lemma processMessage_part002_completion:
  assumes body: "Body m = Some b" "isValid b"
    and r: "report_of env (now out (console_log ''Processing report message:'' w)) b = Inr r"
    and s: "ToString (report.id r) = Inr s"
  shows "fst (processMessage_part002 env out m w) =
     (if sqs out
           (console_log (''Report '' @ s @ '' processed in '' @ environment r @ '' environment'')
              ((console_log ''Successfully processed report:''
                  (console_log ''Processing report message:'' w))\<lparr>handed := handed w @ [r]\<rparr>))
           (DeleteMessage (Some (queueUrl_part002 env)) (ReceiptHandle m)) = Rejected
      then Throw (ProcessingError SqsError) else Normal)"
proof -
  let ?w2 = "console_log (''Report '' @ s @ '' processed in '' @ environment r @ '' environment'')
               ((console_log ''Successfully processed report:''
                   (console_log ''Processing report message:'' w))\<lparr>handed := handed w @ [r]\<rparr>)"
  have pm: "processMessage_part002 env out m w =
      (case deleteMessage_part002 env out (ReceiptHandle m) ?w2 of
         (Normal, w3) \<Rightarrow> (Normal, console_log ''Message processed and removed from queue'' w3)
       | (Throw e, w3) \<Rightarrow> rethrow e w3
       | (Crash e, w3) \<Rightarrow> (Crash e, w3))"
    by (simp add: processMessage_part002_def Let_def body r s processReportData_def)
  show ?thesis
    by (rule deleteMessage_part002_cases [of env out "ReceiptHandle m" ?w2])
       (simp_all add: pm)
qed

lemma processEach_single_alive:
  assumes "id_renders m"
  shows "fst (processEach env out [m] w) = Normal"
  using processEach_calls [of "[m]" env out w] assms by simp

text \<open>
  Claim C5. When an attempt on a message hands a report on, any further attempt on the
  same message, whatever the clock and the queue service do, hands on the same report
  except for \<open>processedAt\<close>; \<open>environment\<close> is \<open>NODE_ENV\<close> or \<open>production\<close> both
  times, the process environment being the same. The further attempt meets no error of
  its own: with a report \<open>id\<close> that converts to a string it completes exactly when the
  service accepts the delete command it sends, as any attempt does; a rejected delete makes
  \<open>processMessage\<close> throw, and the loop of \<open>pollQueue\<close> logs that and goes on.
\<close>

theorem second_attempt_same_report:
  assumes first: "handed (snd (processMessage_part002 env out m w)) = handed w @ [r]"
  shows "handed (snd (processMessage_part002 env out' m w')) =
        handed w' @ [r\<lparr>processedAt := now out' (console_log ''Processing report message:'' w')\<rparr>]
    \<and> environment r = or_else (NODE_ENV env) ''production''
    \<and> (ToString (report.id r) = Inr s \<longrightarrow>
         fst (processMessage_part002 env out' m w') =
           (if sqs out'
                 (console_log
                    (''Report '' @ s @ '' processed in '' @ environment r @ '' environment'')
                    ((console_log ''Successfully processed report:''
                        (console_log ''Processing report message:'' w'))
                     \<lparr>handed := handed w' @
                        [r\<lparr>processedAt :=
                             now out' (console_log ''Processing report message:'' w')\<rparr>]\<rparr>))
                 (DeleteMessage (Some (queueUrl_part002 env)) (ReceiptHandle m)) = Rejected
            then Throw (ProcessingError SqsError) else Normal)
         \<and> fst (processEach env out' [m] w') = Normal)"
proof -
  have acc: "accepted_part002 m"
    using processMessage_part002_rejected(3) [of m env out w] first by auto
  then obtain b r0 where b: "Body m = Some b" "isValid b"
    and r0: "report_of env (now out (console_log ''Processing report message:'' w)) b = Inr r0"
    using accepted_part002_iff [of m env "now out (console_log ''Processing report message:'' w)"]
    by blast
  from handed_report [OF b r0] first have "r0 = r" by simp
  with r0 have r: "report_of env (now out (console_log ''Processing report message:'' w)) b = Inr r"
    by simp
  let ?r' = "r\<lparr>processedAt := now out' (console_log ''Processing report message:'' w')\<rparr>"
  have env: "environment r = or_else (NODE_ENV env) ''production''"
    using report_of_environment [OF r] .
  have r': "report_of env (now out' (console_log ''Processing report message:'' w')) b = Inr ?r'"
    using report_of_transfer [OF r, of env "now out' (console_log ''Processing report message:'' w')"]
      env by simp
  have h': "handed (snd (processMessage_part002 env out' m w')) = handed w' @ [?r']"
    using handed_report [OF b r'] .
  have third: "fst (processMessage_part002 env out' m w') =
           (if sqs out'
                 (console_log
                    (''Report '' @ s @ '' processed in '' @ environment r @ '' environment'')
                    ((console_log ''Successfully processed report:''
                        (console_log ''Processing report message:'' w'))
                     \<lparr>handed := handed w' @ [?r']\<rparr>))
                 (DeleteMessage (Some (queueUrl_part002 env)) (ReceiptHandle m)) = Rejected
            then Throw (ProcessingError SqsError) else Normal)
         \<and> fst (processEach env out' [m] w') = Normal"
    if s: "ToString (report.id r) = Inr s"
  proof -
    from s have s': "ToString (report.id ?r') = Inr s" by simp
    from s b report_of_id [OF r] have ids: "id_renders m"
      by (simp add: id_renders_def)
    from processMessage_part002_completion [OF b r' s'] processEach_single_alive [OF ids]
    show ?thesis by simp
  qed
  from h' env third show ?thesis by blast
qed

theorem second_attempt_same_report_witness:
  "handed (snd (processMessage_part002 sample_env later_out sample_message start)) =
     [\<lparr>report.id = JStr ''P-17'',
       petInfo = \<lparr>petInfo.name = JStr ''Rex'', type = JStr ''dog''\<rparr>,
       ownerInfo = \<lparr>personInfo.id = JStr ''O-4'', name = ''Ada Byron''\<rparr>,
       vetInfo = \<lparr>personInfo.id = JStr ''V-2'', name = ''Jim Herriot''\<rparr>,
       appointment = \<lparr>date = JStr ''2024-05-01'', time = JStr ''10:30'',
                       type = JStr ''checkup'', description = JStr ''yearly''\<rparr>,
       processedAt = ''2024-05-01T10:00:00.000Z'',
       environment = ''production''\<rparr>]
   \<and> ToString (JStr ''P-17'') = Inr ''P-17''
   \<and> handed (snd (processMessage_part002 sample_env later_out sample_message
            (snd (processMessage_part002 sample_env later_out sample_message start)))) =
     [\<lparr>report.id = JStr ''P-17'',
       petInfo = \<lparr>petInfo.name = JStr ''Rex'', type = JStr ''dog''\<rparr>,
       ownerInfo = \<lparr>personInfo.id = JStr ''O-4'', name = ''Ada Byron''\<rparr>,
       vetInfo = \<lparr>personInfo.id = JStr ''V-2'', name = ''Jim Herriot''\<rparr>,
       appointment = \<lparr>date = JStr ''2024-05-01'', time = JStr ''10:30'',
                       type = JStr ''checkup'', description = JStr ''yearly''\<rparr>,
       processedAt = ''2024-05-01T10:00:00.000Z'',
       environment = ''production''\<rparr>,
      \<lparr>report.id = JStr ''P-17'',
       petInfo = \<lparr>petInfo.name = JStr ''Rex'', type = JStr ''dog''\<rparr>,
       ownerInfo = \<lparr>personInfo.id = JStr ''O-4'', name = ''Ada Byron''\<rparr>,
       vetInfo = \<lparr>personInfo.id = JStr ''V-2'', name = ''Jim Herriot''\<rparr>,
       appointment = \<lparr>date = JStr ''2024-05-01'', time = JStr ''10:30'',
                       type = JStr ''checkup'', description = JStr ''yearly''\<rparr>,
       processedAt = ''2024-05-01T10:05:00.000Z'',
       environment = ''production''\<rparr>]
   \<and> fst (processMessage_part002 sample_env later_out sample_message
            (snd (processMessage_part002 sample_env later_out sample_message start))) = Normal"
proof -
  let ?r = "\<lparr>report.id = JStr ''P-17'',
       petInfo = \<lparr>petInfo.name = JStr ''Rex'', type = JStr ''dog''\<rparr>,
       ownerInfo = \<lparr>personInfo.id = JStr ''O-4'', name = ''Ada Byron''\<rparr>,
       vetInfo = \<lparr>personInfo.id = JStr ''V-2'', name = ''Jim Herriot''\<rparr>,
       appointment = \<lparr>date = JStr ''2024-05-01'', time = JStr ''10:30'',
                       type = JStr ''checkup'', description = JStr ''yearly''\<rparr>,
       processedAt = ''2024-05-01T10:00:00.000Z'',
       environment = ''production''\<rparr>"
  let ?w1 = "snd (processMessage_part002 sample_env later_out sample_message start)"
  have first: "handed ?w1 = handed start @ [?r]"
    unfolding sample_first_attempt by (simp add: start_def)
  have renders: "ToString (report.id ?r) = Inr ''P-17''" by simp
  have clock: "now later_out (console_log ''Processing report message:'' ?w1)
               = ''2024-05-01T10:05:00.000Z''"
    by (simp add: sample_first_attempt) (simp add: later_out_def)
  have accepts: "sqs later_out w' (DeleteMessage q h) \<noteq> Rejected" for w' q h
    by (simp add: later_out_def sample_sqs_def)
  note inst = second_attempt_same_report [OF first, of later_out ?w1 "''P-17''"]
  from inst have "handed (snd (processMessage_part002 sample_env later_out sample_message ?w1)) =
          handed ?w1 @ [?r\<lparr>processedAt := ''2024-05-01T10:05:00.000Z''\<rparr>]"
    unfolding clock by blast
  moreover from inst renders
  have "fst (processMessage_part002 sample_env later_out sample_message ?w1) = Normal"
    by (simp add: accepts)
  ultimately show ?thesis
    by (simp add: sample_first_attempt)
qed

section \<open>A failure stays with its message\<close>

text \<open>
  Claim C6. A message that fails validation or mapping costs the batch nothing but its
  own delete, and the poll loop goes on. In \<open>src/PetClinicReportProcessor.js\<close> the
  delete commands of a batch are those of its accepted messages, in order, and every run
  of \<open>pollQueue\<close> schedules the next one. In \<open>unnamed/part_002\<close> the loop logs a
  rejected message and turns to the rest of the batch; the delete commands of a batch are
  again those of its accepted messages, and the next run is scheduled, as long as no
  delivered message carries a \<open>petId\<close> whose conversion to a string throws (that
  exception, from a message that did validate and map, escapes every handler). In
  \<open>unnamed/part_001\<close> \<open>processMessage\<close> never throws.
\<close>

theorem failure_is_local:
  "calls (snd (processPromises mapper env out batch w)) =
     calls w @ map (\<lambda>m. DeleteMessage (queueUrl env) (ReceiptHandle m))
                 (filter (accepted mapper) batch)
   \<and> (\<not> unset (queueUrl env) \<longrightarrow>
        fst (poll_loop (pollQueue mapper env out) n w) = SetTimeout 100)
   \<and> (\<not> accepted_part002 m \<longrightarrow>
        calls (snd (processMessage_part002 env out m w)) = calls w
        \<and> processEach env out (m # rest) w =
            processEach env out rest
              (console_error ''Failed to process message:''
                 (snd (processMessage_part002 env out m w))))
   \<and> (list_all id_renders batch \<longrightarrow>
        fst (processEach env out batch w) = Normal
        \<and> calls (snd (processEach env out batch w)) =
            calls w @ map (\<lambda>m. DeleteMessage (Some (queueUrl_part002 env)) (ReceiptHandle m))
                        (filter accepted_part002 batch))
   \<and> ((\<forall>w' ms. sqs out w' (ReceiveMessage (Some (queueUrl_part002 env)) 10 20 300)
                   = Resolved (Some ms) \<longrightarrow> list_all id_renders ms) \<longrightarrow>
        fst (poll_loop (pollQueue_part002 env out) n w) = SetTimeout 1000)
   \<and> fst (processMessage_part001 mapper env out m w) = Normal"
proof (intro conjI impI)
  show "calls (snd (processPromises mapper env out batch w)) =
     calls w @ map (\<lambda>m. DeleteMessage (queueUrl env) (ReceiptHandle m))
                 (filter (accepted mapper) batch)"
    by (rule processPromises_calls)
next
  assume "\<not> unset (queueUrl env)"
  then show "fst (poll_loop (pollQueue mapper env out) n w) = SetTimeout 100"
    by (rule poll_loop_pollQueue)
next
  assume rejected: "\<not> accepted_part002 m"
  then show "calls (snd (processMessage_part002 env out m w)) = calls w"
    by (rule processMessage_part002_rejected(2))
  from rejected show "processEach env out (m # rest) w =
            processEach env out rest
              (console_error ''Failed to process message:''
                 (snd (processMessage_part002 env out m w)))"
    by (rule processEach_skips_rejected)
next
  assume ids: "list_all id_renders batch"
  from processEach_calls [OF ids, of env out w]
  show "fst (processEach env out batch w) = Normal"
    and "calls (snd (processEach env out batch w)) =
            calls w @ map (\<lambda>m. DeleteMessage (Some (queueUrl_part002 env)) (ReceiptHandle m))
                        (filter accepted_part002 batch)"
    by simp_all
next
  assume "\<forall>w' ms. sqs out w' (ReceiveMessage (Some (queueUrl_part002 env)) 10 20 300)
                   = Resolved (Some ms) \<longrightarrow> list_all id_renders ms"
  then have "list_all id_renders ms"
    if "sqs out w' (ReceiveMessage (Some (queueUrl_part002 env)) 10 20 300) = Resolved (Some ms)"
    for w' ms using that by blast
  then show "fst (poll_loop (pollQueue_part002 env out) n w) = SetTimeout 1000"
    by (rule poll_loop_pollQueue_part002)
next
  show "fst (processMessage_part001 mapper env out m w) = Normal"
    by (rule processMessage_part001_Normal)
qed

theorem failure_is_local_witness:
  "\<not> unset (queueUrl sample_env)
   \<and> list_all id_renders sample_batch
   \<and> \<not> accepted returning_from sample_message_no_vetName
   \<and> \<not> accepted_part002 sample_message_no_vetName
   \<and> calls (snd (processPromises returning_from sample_env batch_out sample_batch start)) =
       [DeleteMessage (Some ''https://sqs.local/reports'') ''rh-1'',
        DeleteMessage (Some ''https://sqs.local/reports'') ''rh-4'']
   \<and> fst (poll_loop (pollQueue returning_from sample_env batch_out) 5 start) = SetTimeout 100
   \<and> processEach sample_env batch_out [sample_message_no_vetName, sample_message_other] start =
       processEach sample_env batch_out [sample_message_other]
         (console_error ''Failed to process message:''
            (snd (processMessage_part002 sample_env batch_out sample_message_no_vetName start)))
   \<and> calls (snd (processEach sample_env batch_out sample_batch start)) =
       [DeleteMessage (Some ''https://sqs.local/reports'') ''rh-1'',
        DeleteMessage (Some ''https://sqs.local/reports'') ''rh-4'']
   \<and> fst (poll_loop (pollQueue_part002 sample_env batch_out) 5 start) = SetTimeout 1000"
proof -
  have url: "\<not> unset (queueUrl sample_env)"
    by (simp add: unset_def queueUrl_def sample_env_def)
  have batch: "list_all id_renders sample_batch"
    by (simp add: sample_batch_def sample_accepted_part002)
  have ids: "\<forall>w' ms. sqs batch_out w' (ReceiveMessage (Some (queueUrl_part002 sample_env)) 10 20 300)
          = Resolved (Some ms) \<longrightarrow> list_all id_renders ms"
    using batch by (simp add: batch_out_def batch_sqs_def)
  have q: "queueUrl sample_env = Some ''https://sqs.local/reports''"
    "queueUrl_part002 sample_env = ''https://sqs.local/reports''"
    by (simp_all add: queueUrl_def queueUrl_part002_def sample_env_def or_else_def)
  have sel: "ReceiptHandle sample_message = ''rh-1''" "ReceiptHandle sample_message_other = ''rh-4''"
    by (simp_all add: sample_message_def sample_message_other_def)
  note inst = failure_is_local [where env = sample_env and out = batch_out and batch = sample_batch
          and mapper = returning_from and w = start and n = 5 and m = sample_message_no_vetName
          and rest = "[sample_message_other]"]
  from inst url batch ids sample_accepted(2) sample_accepted_part002(2)
  have "calls (snd (processPromises returning_from sample_env batch_out sample_batch start)) =
     calls start @ map (\<lambda>m. DeleteMessage (queueUrl sample_env) (ReceiptHandle m))
                 (filter (accepted returning_from) sample_batch)"
    and "fst (poll_loop (pollQueue returning_from sample_env batch_out) 5 start) = SetTimeout 100"
    and "processEach sample_env batch_out [sample_message_no_vetName, sample_message_other] start =
       processEach sample_env batch_out [sample_message_other]
         (console_error ''Failed to process message:''
            (snd (processMessage_part002 sample_env batch_out sample_message_no_vetName start)))"
    and "calls (snd (processEach sample_env batch_out sample_batch start)) =
            calls start @ map (\<lambda>m. DeleteMessage (Some (queueUrl_part002 sample_env)) (ReceiptHandle m))
                        (filter accepted_part002 sample_batch)"
    and "fst (poll_loop (pollQueue_part002 sample_env batch_out) 5 start) = SetTimeout 1000"
    by blast+
  then show ?thesis
    using url batch sample_accepted sample_accepted_part002
    by (simp add: sample_batch_def q sel start_def)
qed

section \<open>Start-up without a queue URL\<close>

text \<open>
  Claim C7. With \<open>SQS_QUEUE_URL\<close> unset, \<open>pollQueue\<close> of
  \<open>src/PetClinicReportProcessor.js\<close> logs the error and returns: \<open>process.exit(1)\<close>
  is not called. The processor of \<open>unnamed/part_001\<close> does exit with code 1; the one of
  \<open>unnamed/part_002\<close> polls its default queue and goes on.
\<close>

theorem missing_queue_url_returns:
  "SQS_QUEUE_URL empty_env = None
   \<and> main PetClinicReport_from empty_env sample_out start =
      (Return,
       \<lparr>calls = [],
        console = [Log ''Starting SQS consumer for queue:'', Log ''DLQ configured at:'',
                   Err ''SQS_QUEUE_URL environment variable is not set''],
        handed = []\<rparr>)
   \<and> fst (main_part001 PetClinicReport_from empty_env sample_out start) = ProcessExit 1
   \<and> fst (main_part002 empty_env sample_out start) = SetTimeout 1000
   \<and> hd (calls (snd (main_part002 empty_env sample_out start))) =
       ReceiveMessage
         (Some ''https://sqs.us-east-1.amazonaws.com/123456789012/pet-clinic-reports'') 10 20 300"
proof -
  have a: "main PetClinicReport_from empty_env sample_out start =
      (Return,
       \<lparr>calls = [],
        console = [Log ''Starting SQS consumer for queue:'', Log ''DLQ configured at:'',
                   Err ''SQS_QUEUE_URL environment variable is not set''],
        handed = []\<rparr>)"
    by (simp add: main_def pollQueue_def empty_env_def queueUrl_def unset_def start_def
          console_log_def console_error_def)
  have b: "fst (main_part001 PetClinicReport_from empty_env sample_out start) = ProcessExit 1"
    by (simp add: main_part001_def pollQueue_part001_def empty_env_def queueUrl_def unset_def)
  have ids: "list_all id_renders batch"
    if "sqs sample_out w (ReceiveMessage (Some (queueUrl_part002 empty_env)) 10 20 300)
          = Resolved (Some batch)" for w batch
    using that by (auto simp add: sample_out_def sample_sqs_def sample_accepted_part002)
  have c: "fst (main_part002 empty_env sample_out start) = SetTimeout 1000"
    unfolding main_part002_def using ids by (rule pollQueue_part002_step)
  have q: "queueUrl_part002 empty_env =
      ''https://sqs.us-east-1.amazonaws.com/123456789012/pet-clinic-reports''"
    by (simp add: queueUrl_part002_def empty_env_def or_else_def)
  have d: "hd (calls (snd (main_part002 empty_env sample_out start))) =
       ReceiveMessage (Some (queueUrl_part002 empty_env)) 10 20 300"
    by (simp add: main_part002_def pollQueue_part002_def queueUrl_part002_set send_def
          sample_out_def sample_sqs_def sample_message_def processMessage_part002_def
          sample_valid sample_report Let_def processReportData_def deleteMessage_part002_def
          start_def console_log_def)
  from a b c d show ?thesis by (simp add: q) (simp add: empty_env_def)
qed

section \<open>The report\<close>

text \<open>
  Claim C8. For a validated message whose owner and vet names convert to strings (a
  string converts to itself) the report handed on has the shape
  \<open>{ id, petInfo: {name, type}, ownerInfo: {id, name}, vetInfo: {id, name},
  appointment: {date, time, type, description}, processedAt, environment }\<close>: \<open>id\<close> is
  \<open>petId\<close> as it stands, and the owner's and the vet's \<open>name\<close> are the given name and
  the surname (as the template literal converts them; a string is itself) with one space
  between.
\<close>

theorem report_shape:
  assumes body: "Body m = Some b"
    and valid: "isValid b"
    and owner: "ToString (get_prop b ''ownerName'') = Inr ownerName"
               "ToString (get_prop b ''ownerSurname'') = Inr ownerSurname"
    and vet: "ToString (get_prop b ''vetName'') = Inr vetName"
             "ToString (get_prop b ''vetSurname'') = Inr vetSurname"
  shows "handed (snd (processMessage_part002 env out m w)) =
     handed w @
     [\<lparr>report.id = get_prop b ''petId'',
       petInfo = \<lparr>petInfo.name = get_prop b ''petName'', type = get_prop b ''petType''\<rparr>,
       ownerInfo = \<lparr>personInfo.id = get_prop b ''ownerId'',
                     name = ownerName @ '' '' @ ownerSurname\<rparr>,
       vetInfo = \<lparr>personInfo.id = get_prop b ''vetId'',
                   name = vetName @ '' '' @ vetSurname\<rparr>,
       appointment = \<lparr>date = get_prop b ''appointmentDate'',
                       time = get_prop b ''appointmentTime'',
                       type = get_prop b ''appointmentType'',
                       description = get_prop b ''appointmentDescription''\<rparr>,
       processedAt = now out (console_log ''Processing report message:'' w),
       environment = or_else (NODE_ENV env) ''production''\<rparr>]"
proof -
  let ?r = "\<lparr>report.id = get_prop b ''petId'',
       petInfo = \<lparr>petInfo.name = get_prop b ''petName'', type = get_prop b ''petType''\<rparr>,
       ownerInfo = \<lparr>personInfo.id = get_prop b ''ownerId'',
                     name = ownerName @ '' '' @ ownerSurname\<rparr>,
       vetInfo = \<lparr>personInfo.id = get_prop b ''vetId'',
                   name = vetName @ '' '' @ vetSurname\<rparr>,
       appointment = \<lparr>date = get_prop b ''appointmentDate'',
                       time = get_prop b ''appointmentTime'',
                       type = get_prop b ''appointmentType'',
                       description = get_prop b ''appointmentDescription''\<rparr>,
       processedAt = now out (console_log ''Processing report message:'' w),
       environment = or_else (NODE_ENV env) ''production''\<rparr>"
  have r: "report_of env (now out (console_log ''Processing report message:'' w)) b = Inr ?r"
    by (simp add: report_of_def template_def owner vet)
  show ?thesis
  proof (cases "ToString (get_prop b ''petId'')")
    case (Inl e)
    then show ?thesis
      by (simp add: processMessage_part002_def Let_def body valid r processReportData_def)
  next
    case (Inr s)
    let ?w2 = "console_log (''Report '' @ s @ '' processed in '' @ environment ?r @ '' environment'')
               ((console_log ''Successfully processed report:''
                   (console_log ''Processing report message:'' w))\<lparr>handed := handed w @ [?r]\<rparr>)"
    have pm: "processMessage_part002 env out m w =
      (case deleteMessage_part002 env out (ReceiptHandle m) ?w2 of
         (Normal, w3) \<Rightarrow> (Normal, console_log ''Message processed and removed from queue'' w3)
       | (Throw e, w3) \<Rightarrow> rethrow e w3
       | (Crash e, w3) \<Rightarrow> (Crash e, w3))"
      by (simp add: processMessage_part002_def Let_def body valid r Inr processReportData_def)
    show ?thesis
      by (rule deleteMessage_part002_cases [of env out "ReceiptHandle m" ?w2])
         (simp_all add: pm)
  qed
qed

theorem report_shape_witness:
  "Body sample_message = Some sample_body \<and> isValid sample_body
   \<and> ToString (get_prop sample_body ''ownerName'') = Inr ''Ada''
   \<and> ToString (get_prop sample_body ''ownerSurname'') = Inr ''Byron''
   \<and> ToString (get_prop sample_body ''vetName'') = Inr ''Jim''
   \<and> ToString (get_prop sample_body ''vetSurname'') = Inr ''Herriot''
   \<and> handed (snd (processMessage_part002 sample_env sample_out sample_message start)) =
     [\<lparr>report.id = JStr ''P-17'',
       petInfo = \<lparr>petInfo.name = JStr ''Rex'', type = JStr ''dog''\<rparr>,
       ownerInfo = \<lparr>personInfo.id = JStr ''O-4'', name = ''Ada Byron''\<rparr>,
       vetInfo = \<lparr>personInfo.id = JStr ''V-2'', name = ''Jim Herriot''\<rparr>,
       appointment = \<lparr>date = JStr ''2024-05-01'', time = JStr ''10:30'',
                       type = JStr ''checkup'', description = JStr ''yearly''\<rparr>,
       processedAt = ''2024-05-01T10:00:00.000Z'',
       environment = ''production''\<rparr>]"
proof -
  have body: "Body sample_message = Some sample_body" by (simp add: sample_message_def)
  have names: "ToString (get_prop sample_body ''ownerName'') = Inr ''Ada''"
    "ToString (get_prop sample_body ''ownerSurname'') = Inr ''Byron''"
    "ToString (get_prop sample_body ''vetName'') = Inr ''Jim''"
    "ToString (get_prop sample_body ''vetSurname'') = Inr ''Herriot''"
    by (simp_all add: sample_body_def)
  have fields: "get_prop sample_body ''petId'' = JStr ''P-17''"
    "get_prop sample_body ''petName'' = JStr ''Rex''"
    "get_prop sample_body ''petType'' = JStr ''dog''"
    "get_prop sample_body ''ownerId'' = JStr ''O-4''"
    "get_prop sample_body ''vetId'' = JStr ''V-2''"
    "get_prop sample_body ''appointmentDate'' = JStr ''2024-05-01''"
    "get_prop sample_body ''appointmentTime'' = JStr ''10:30''"
    "get_prop sample_body ''appointmentType'' = JStr ''checkup''"
    "get_prop sample_body ''appointmentDescription'' = JStr ''yearly''"
    by (simp_all add: sample_body_def)
  show ?thesis
    using report_shape [OF body sample_valid(2) names, of sample_env sample_out start]
    by (simp add: body sample_valid names fields start_def sample_out_def sample_env_def or_else_def)
qed

section \<open>Falsy fields\<close>

text \<open>
  Claim C9. The validity tests are truthiness tests: a required field bound to any falsy
  value (the number 0 and \<open>false\<close> among them) makes the message invalid, with the
  same outcome as a message in which the field is missing, and nothing is sent to the queue.
\<close>

theorem falsy_field_rejected:
  assumes field: "field \<in> set requiredFields"
    and falsy: "\<not> truthy (get_prop b field)"
    and body: "Body m = Some b"
    and absent: "get_prop b' field = JUndefined"
    and body': "Body m' = Some b'"
  shows "\<not> truthy (JNum ''0'') \<and> \<not> truthy (JBool False)
    \<and> \<not> nullChecks b \<and> \<not> isValid b
    \<and> fst (processMessage from env out m isRetry w) = Throw (ProcessingError InvalidFormat)
    \<and> fst (processMessage from env out m isRetry w) = fst (processMessage from env out m' isRetry w)
    \<and> calls (snd (processMessage from env out m isRetry w)) = calls w
    \<and> fst (processMessage_part002 env out m w) = Throw (ProcessingError InvalidFormat)
    \<and> fst (processMessage_part002 env out m w) = fst (processMessage_part002 env out m' w)
    \<and> calls (snd (processMessage_part002 env out m w)) = calls w"
proof -
  from field falsy have inv: "\<not> isValid b" by (rule falsy_field_invalid)
  from absent have "\<not> truthy (get_prop b' field)" by simp
  with field have inv': "\<not> isValid b'" by (rule falsy_field_invalid)
  from inv have "\<not> nullChecks b" by (simp add: isValid_iff_nullChecks)
  with inv show ?thesis
    by (simp add: invalid_processMessage [OF body inv] invalid_processMessage_part002 [OF body inv]
          invalid_processMessage [OF body' inv'] invalid_processMessage_part002 [OF body' inv'])
qed

theorem falsy_field_rejected_witness:
  "''vetName'' \<in> set requiredFields
   \<and> get_prop sample_body_zero_vetName ''vetName'' = JNum ''0''
   \<and> \<not> truthy (JNum ''0'')
   \<and> get_prop sample_body_no_vetName ''vetName'' = JUndefined
   \<and> \<not> isValid sample_body_zero_vetName
   \<and> fst (processMessage returning_from sample_env sample_out sample_message_zero_vetName False start)
       = Throw (ProcessingError InvalidFormat)
   \<and> fst (processMessage_part002 sample_env sample_out sample_message_zero_vetName start)
       = fst (processMessage_part002 sample_env sample_out sample_message_no_vetName start)"
proof -
  have f: "''vetName'' \<in> set requiredFields" by (simp add: requiredFields_def)
  have g: "get_prop sample_body_zero_vetName ''vetName'' = JNum ''0''"
    by (simp add: sample_body_zero_vetName_def)
  then have z: "\<not> truthy (get_prop sample_body_zero_vetName ''vetName'')" by simp
  have a: "get_prop sample_body_no_vetName ''vetName'' = JUndefined"
    by (simp add: sample_body_no_vetName_def)
  have b: "Body sample_message_zero_vetName = Some sample_body_zero_vetName"
    by (simp add: sample_message_zero_vetName_def)
  have b': "Body sample_message_no_vetName = Some sample_body_no_vetName"
    by (simp add: sample_message_no_vetName_def)
  show ?thesis
    using falsy_field_rejected [OF f z b a b', of returning_from sample_env sample_out False start] f g a
    by auto
qed

section \<open>The address of the dead-letter queue\<close>

text \<open>
  Claim C10. With neither \<open>SQS_DLQ_URL\<close> nor \<open>SQS_QUEUE_URL\<close> set, \<open>dlqUrl\<close> is the
  string \<open>undefined-dlq\<close>, and the receive and every delete of
  \<open>processDeadLetterQueue\<close> go to that address.
\<close>

theorem dlq_url_undefined:
  assumes "SQS_DLQ_URL env = None" and "SQS_QUEUE_URL env = None"
  shows "dlqUrl env = ''undefined-dlq''
    \<and> (\<exists>dels. calls (processDeadLetterQueue mapper env out w) =
                 calls w @ ReceiveMessage (Some ''undefined-dlq'') 10 5 30 # dels
              \<and> list_all (\<lambda>c. QueueUrl c = Some ''undefined-dlq'') dels)"
proof -
  from assms have u: "dlqUrl env = ''undefined-dlq''"
    by (simp add: dlqUrl_def or_else_def plus_string_def)
  from processDeadLetterQueue_calls [of mapper env out w]
  obtain dels where d: "calls (processDeadLetterQueue mapper env out w) =
       calls w @ ReceiveMessage (Some (dlqUrl env)) 10 5 30 # dels"
     "list_all (\<lambda>c. \<exists>h. c = DeleteMessage (Some (dlqUrl env)) h) dels" by blast
  from d(2) have "list_all (\<lambda>c. QueueUrl c = Some ''undefined-dlq'') dels"
    by (auto simp add: list_all_iff u)
  with d(1) u show ?thesis by auto
qed

theorem dlq_url_undefined_witness:
  "SQS_DLQ_URL empty_env = None \<and> SQS_QUEUE_URL empty_env = None
   \<and> dlqUrl empty_env = ''undefined-dlq''
   \<and> calls (processDeadLetterQueue returning_from empty_env dlq_out start) =
       [ReceiveMessage (Some ''undefined-dlq'') 10 5 30,
        DeleteMessage (Some ''undefined-dlq'') ''rh-1'',
        DeleteMessage (Some ''undefined-dlq'') ''rh-1'']"
proof -
  have e: "SQS_DLQ_URL empty_env = None" "SQS_QUEUE_URL empty_env = None"
    by (simp_all add: empty_env_def)
  have c: "calls (processDeadLetterQueue returning_from empty_env dlq_out start) =
       [ReceiveMessage (Some (dlqUrl empty_env)) 10 5 30,
        DeleteMessage (Some (dlqUrl empty_env)) ''rh-1'',
        DeleteMessage (Some (dlqUrl empty_env)) ''rh-1'']"
    by (simp add: processDeadLetterQueue_def send_def dlq_out_def sample_sqs_def processMessage_def
       sample_valid sample_message_def returning_from_def deleteMessage_def Let_def
       start_def console_log_def)
  from dlq_url_undefined [OF e, of returning_from dlq_out start] e c show ?thesis by simp
qed

end
